theory Spec2Isabelle
  imports Complex_Main "HOL-Library.Sublist"
begin

section \<open>Python values and exceptions\<close>

text \<open>
  The values that flow through both programs come out of \<^verbatim>\<open>json.loads\<close>: a decoded
  document is \<^verbatim>\<open>None\<close>, a bool, an int, a float, a str, a list or a dict. A finite
  float is kept as the rational it denotes; \<open>JFloat None\<close> stands for \<^verbatim>\<open>nan\<close> and
  the two infinities. A dict is an association list read with \<open>map_of\<close>.
  Strings are lists of 8-bit characters, read as the code points 0 to 255.
\<close>

datatype json =
    JNull
  | JBool bool
  | JInt int
  | JFloat "rat option"
  | JStr string
  | JArr "json list"
  | JObj "(string \<times> json) list"

text \<open>
  The exception classes the two programs name in an \<^verbatim>\<open>except\<close> clause or can raise
  from a built-in. All of them are subclasses of \<^verbatim>\<open>Exception\<close>, so a bare
  \<^verbatim>\<open>except Exception\<close> catches every value of this type.
\<close>

datatype exn =
    ClientError
  | BotoCoreError
  | KeyError
  | ValueError
  | JSONDecodeError
  | TypeError
  | AttributeError
  | OtherError

text \<open>The clause \<^verbatim>\<open>except (ClientError, BotoCoreError)\<close>.\<close>

fun boto_error :: "exn \<Rightarrow> bool" where
  "boto_error ClientError = True"
| "boto_error BotoCoreError = True"
| "boto_error _ = False"

text \<open>Truthiness, as \<^verbatim>\<open>if not x\<close> tests it.\<close>

fun truthy :: "json \<Rightarrow> bool" where
  "truthy JNull = False"
| "truthy (JBool b) = b"
| "truthy (JInt i) = (i \<noteq> 0)"
| "truthy (JFloat None) = True"
| "truthy (JFloat (Some q)) = (q \<noteq> 0)"
| "truthy (JStr s) = (s \<noteq> [])"
| "truthy (JArr xs) = (xs \<noteq> [])"
| "truthy (JObj kvs) = (kvs \<noteq> [])"

text \<open>\<^verbatim>\<open>d.get(key, default)\<close>: only a dict has the method.\<close>

fun dict_get :: "json \<Rightarrow> string \<Rightarrow> json \<Rightarrow> exn + json" where
  "dict_get (JObj kvs) k d = Inr (case map_of kvs k of None \<Rightarrow> d | Some v \<Rightarrow> v)"
| "dict_get _ k d = Inl AttributeError"

text \<open>\<^verbatim>\<open>key in x\<close> for a str key: membership in a dict's keys, equality with a list
  element, substring of a str, and a TypeError on everything else.\<close>

fun str_in :: "string \<Rightarrow> json \<Rightarrow> exn + bool" where
  "str_in k (JObj kvs) = Inr (map_of kvs k \<noteq> None)"
| "str_in k (JArr xs) = Inr (JStr k \<in> set xs)"
| "str_in k (JStr s) = Inr (sublist k s)"
| "str_in k _ = Inl TypeError"

text \<open>\<^verbatim>\<open>x[key]\<close> for a str key: a dict looks the key up, a list or a str refuses a
  str index, nothing else is subscriptable.\<close>

fun getitem_str :: "json \<Rightarrow> string \<Rightarrow> exn + json" where
  "getitem_str (JObj kvs) k = (case map_of kvs k of None \<Rightarrow> Inl KeyError | Some v \<Rightarrow> Inr v)"
| "getitem_str _ k = Inl TypeError"

text \<open>\<^verbatim>\<open>len(x)\<close>.\<close>

fun py_len :: "json \<Rightarrow> exn + nat" where
  "py_len (JStr s) = Inr (length s)"
| "py_len (JArr xs) = Inr (length xs)"
| "py_len (JObj kvs) = Inr (length kvs)"
| "py_len _ = Inl TypeError"

text \<open>\<^verbatim>\<open>x[:n]\<close>: a str and a list are sliced, anything else raises.\<close>

fun slice_to :: "nat \<Rightarrow> json \<Rightarrow> exn + json" where
  "slice_to n (JStr s) = Inr (JStr (take n s))"
| "slice_to n (JArr xs) = Inr (JArr (take n xs))"
| "slice_to n _ = Inl TypeError"

text \<open>\<^verbatim>\<open>int(x)\<close>: a float is truncated towards zero, a bool is 0 or 1, a str is
  parsed by the built-in (taken as the parameter \<open>int_of_str\<close>, \<open>None\<close> where it
  raises), and \<^verbatim>\<open>None\<close>, lists and dicts are a TypeError. For \<^verbatim>\<open>nan\<close> Python raises
  a ValueError and for an infinity an OverflowError; \<open>JFloat None\<close> stands for all
  three, and the one exception given here stands for both: every caller treats
  them alike.\<close>

fun py_int :: "(string \<Rightarrow> int option) \<Rightarrow> json \<Rightarrow> exn + int" where
  "py_int p (JInt i) = Inr i"
| "py_int p (JBool b) = Inr (if b then 1 else 0)"
| "py_int p (JFloat None) = Inl ValueError"
| "py_int p (JFloat (Some q)) = Inr (if 0 \<le> q then \<lfloor>q\<rfloor> else \<lceil>q\<rceil>)"
| "py_int p (JStr s) = (case p s of None \<Rightarrow> Inl ValueError | Some i \<Rightarrow> Inr i)"
| "py_int p _ = Inl TypeError"

text \<open>Decimal digits: \<open>pad w n\<close> is \<open>n\<close> in \<open>w\<close> digits with leading zeros (the low
  \<open>w\<close> digits where \<open>n\<close> has more), as \<^verbatim>\<open>%02d\<close> and \<^verbatim>\<open>%04d\<close> print it.\<close>

definition digit :: "nat \<Rightarrow> char" where
  "digit n = ''0123456789'' ! (n mod 10)"

fun pad :: "nat \<Rightarrow> nat \<Rightarrow> string" where
  "pad 0 n = []"
| "pad (Suc w) n = pad w (n div 10) @ [digit n]"


section \<open>The processor Lambda (processor.py)\<close>

subsection \<open>Environment and state\<close>

text \<open>
  One item of the DynamoDB table, with the attributes \<^verbatim>\<open>save_to_dynamodb\<close> writes and
  the one the worker adds (\<open>AsciiGeneratedAt\<close>). \<open>AsciiUrl\<close> is \<open>JNull\<close> for Python's
  \<^verbatim>\<open>None\<close>.
\<close>

record plan_item =
  UserId :: json
  Timestamp :: string
  RecordId :: json
  UserText :: json
  Emotion :: json
  SentimentScore :: int
  WeeklyPlan :: json
  AsciiUrl :: json
  AsciiStatus :: string
  CreatedAt :: string
  IsFallback :: json
  AsciiGeneratedAt :: "string option"

text \<open>
  What the Lambda cannot decide itself is a parameter. The handler gives every record
  of a batch its position \<open>i\<close>, and every outside call made for that record takes its
  answer from the environment at \<open>i\<close>: the secrets store, the inference SDK, the table,
  the queue, the clock and the UUID source. A call that raises answers \<open>Inl e\<close> (or
  \<open>Some e\<close> where it returns nothing).
\<close>

record penv =
  GEMINI_AVAILABLE :: bool
  P_SQS_QUEUE_URL :: string
  secret_string :: "nat \<Rightarrow> exn + string"
  json_loads :: "string \<Rightarrow> json option"
  json_dumps :: "json \<Rightarrow> string"
  int_of_str :: "string \<Rightarrow> int option"
  b64_utf8 :: "string \<Rightarrow> exn + string"
  generate_content :: "nat \<Rightarrow> json \<Rightarrow> json \<Rightarrow> exn + string"
  put_item_fault :: "nat \<Rightarrow> exn option"
  send_message_fault :: "nat \<Rightarrow> exn option"
  uuid4 :: "nat \<Rightarrow> string"
  save_time :: "nat \<Rightarrow> string"
  enqueue_time :: "nat \<Rightarrow> string"

text \<open>A message accepted by the queue, as the arguments of \<^verbatim>\<open>send_message\<close>.\<close>

record sqs_send =
  MessageBody :: string
  MessageGroupId :: json

text \<open>
  The state the Lambda changes: the module's secrets cache (\<open>JNull\<close> is \<^verbatim>\<open>None\<close>), the
  table and the queue.
\<close>

record pstate =
  secrets_cache :: json
  table :: "plan_item list"
  sent :: "sqs_send list"

subsection \<open>The fallback payload\<close>

definition day_entry :: "string \<Rightarrow> string list \<Rightarrow> string \<Rightarrow> string \<Rightarrow> json" where
  "day_entry d ts f s =
     JObj [(''day'', JStr d), (''tasks'', JArr (map JStr ts)),
           (''focus'', JStr f), (''self_care'', JStr s)]"

definition fallback_plan :: "json list" where
  "fallback_plan =
    [day_entry ''Monday''
       [''Review weekly goals'', ''Organize workspace'', ''Plan the week ahead'']
       ''Organization and clarity'' ''Take a 15-minute walk'',
     day_entry ''Tuesday''
       [''Focus on priority tasks'', ''Respond to pending messages'', ''Document progress'']
       ''Productivity'' ''Practice deep breathing exercises'',
     day_entry ''Wednesday''
       [''Midweek review'', ''Adjust plans if needed'', ''Connect with a colleague'']
       ''Adaptation and connection'' ''Enjoy a healthy lunch mindfully'',
     day_entry ''Thursday''
       [''Continue priority work'', ''Prepare for end of week'', ''Learn something new'']
       ''Growth and momentum'' ''Listen to calming music'',
     day_entry ''Friday''
       [''Complete weekly tasks'', ''Review accomplishments'', ''Set intentions for next week'']
       ''Completion and reflection'' ''Celebrate small wins'',
     day_entry ''Saturday''
       [''Rest and recharge'', ''Pursue a hobby'', ''Spend time with loved ones'']
       ''Personal time'' ''Sleep in if needed'',
     day_entry ''Sunday''
       [''Gentle preparation for the week'', ''Meal prep'', ''Relaxation'']
       ''Renewal'' ''Practice gratitude journaling'']"

definition get_fallback_response :: json where
  "get_fallback_response =
     JObj [(''emotion'', JStr ''neutral''),
           (''sentiment_score'', JInt 50),
           (''weekly_plan'', JArr fallback_plan),
           (''_fallback'', JBool True)]"

subsection \<open>call_gemini_api\<close>

definition required_fields :: "string list" where
  "required_fields = [''emotion'', ''sentiment_score'', ''weekly_plan'']"

text \<open>The loop \<^verbatim>\<open>for field in required_fields: if field not in result: raise ValueError\<close>.\<close>

fun validate_fields :: "string list \<Rightarrow> json \<Rightarrow> exn option" where
  "validate_fields [] result = None"
| "validate_fields (f # fs) result =
     (case str_in f result of
        Inl e \<Rightarrow> Some e
      | Inr present \<Rightarrow> if \<not> present then Some ValueError else validate_fields fs result)"

text \<open>
  The body of the \<^verbatim>\<open>try\<close>: the SDK call, \<^verbatim>\<open>json.loads(response.text)\<close>, the
  field check, and the log line, whose f-string reads \<^verbatim>\<open>result['emotion']\<close> and
  \<^verbatim>\<open>result['sentiment_score']\<close> and so raises where they cannot be read.
\<close>

definition gemini_try :: "penv \<Rightarrow> nat \<Rightarrow> json \<Rightarrow> json \<Rightarrow> exn + json" where
  "gemini_try env i user_text api_key =
     (case generate_content env i user_text api_key of
        Inl e \<Rightarrow> Inl e
      | Inr text \<Rightarrow>
          (case json_loads env text of
             None \<Rightarrow> Inl JSONDecodeError
           | Some result \<Rightarrow>
               (case validate_fields required_fields result of
                  Some e \<Rightarrow> Inl e
                | None \<Rightarrow>
                    (case getitem_str result ''emotion'' of
                       Inl e \<Rightarrow> Inl e
                     | Inr _ \<Rightarrow>
                         (case getitem_str result ''sentiment_score'' of
                            Inl e \<Rightarrow> Inl e
                          | Inr _ \<Rightarrow> Inr result)))))"

definition call_gemini_api :: "penv \<Rightarrow> nat \<Rightarrow> json \<Rightarrow> json \<Rightarrow> json" where
  "call_gemini_api env i user_text api_key =
     (if \<not> GEMINI_AVAILABLE env then get_fallback_response
      else case gemini_try env i user_text api_key of
             Inl e \<Rightarrow> get_fallback_response
           | Inr result \<Rightarrow> result)"


subsection \<open>get_secrets and parse_kinesis_record\<close>

text \<open>
  \<^verbatim>\<open>get_secrets\<close> answers from the cache when it is set; otherwise it reads the secret,
  decodes it and caches the document. Its \<^verbatim>\<open>except ClientError\<close> logs and raises again,
  so every exception of the body reaches the caller.
\<close>

definition get_secrets :: "penv \<Rightarrow> nat \<Rightarrow> pstate \<Rightarrow> (exn + json) \<times> pstate" where
  "get_secrets env i st =
     (if secrets_cache st \<noteq> JNull then (Inr (secrets_cache st), st)
      else case secret_string env i of
             Inl e \<Rightarrow> (Inl e, st)
           | Inr s \<Rightarrow>
               (case json_loads env s of
                  None \<Rightarrow> (Inl JSONDecodeError, st)
                | Some v \<Rightarrow> (Inr v, st\<lparr>secrets_cache := v\<rparr>)))"

text \<open>The clause \<^verbatim>\<open>except (KeyError, json.JSONDecodeError)\<close> of
  \<^verbatim>\<open>parse_kinesis_record\<close> turns these two into a ValueError; any other exception
  passes through.\<close>

definition parse_except :: "exn \<Rightarrow> exn" where
  "parse_except e = (if e = KeyError \<or> e = JSONDecodeError then ValueError else e)"

definition parse_kinesis_record :: "penv \<Rightarrow> json \<Rightarrow> exn + json" where
  "parse_kinesis_record env record =
     (case getitem_str record ''kinesis'' of
        Inl e \<Rightarrow> Inl (parse_except e)
      | Inr k \<Rightarrow>
          (case getitem_str k ''data'' of
             Inl e \<Rightarrow> Inl (parse_except e)
           | Inr d \<Rightarrow>
               (case d of
                  JStr payload \<Rightarrow>
                    (case b64_utf8 env payload of
                       Inl e \<Rightarrow> Inl (parse_except e)
                     | Inr data \<Rightarrow>
                         (case json_loads env data of
                            None \<Rightarrow> Inl (parse_except JSONDecodeError)
                          | Some v \<Rightarrow> Inr v))
                | _ \<Rightarrow> Inl (parse_except TypeError))))"

subsection \<open>save_to_dynamodb\<close>

text \<open>\<^verbatim>\<open>put_item\<close> replaces the item that has the same primary key
  \<open>(UserId, Timestamp)\<close>, the key the worker's \<^verbatim>\<open>update_item\<close> names.\<close>

definition same_key :: "plan_item \<Rightarrow> plan_item \<Rightarrow> bool" where
  "same_key a b = (UserId a = UserId b \<and> Timestamp a = Timestamp b)"

definition table_put :: "plan_item list \<Rightarrow> plan_item \<Rightarrow> plan_item list" where
  "table_put tbl item = filter (\<lambda>x. \<not> same_key x item) tbl @ [item]"

text \<open>
  The dict literal is built field by field, in the source's order, and the first
  expression that raises ends the call: the slice of the text, the three reads of the
  analysis, the \<^verbatim>\<open>int(...)\<close> of the score. The \<^verbatim>\<open>except\<close> clause logs and raises
  again, so a fault of \<^verbatim>\<open>put_item\<close> reaches the caller and the table keeps its
  contents.
\<close>

definition build_item ::
  "penv \<Rightarrow> string \<Rightarrow> json \<Rightarrow> string \<Rightarrow> json \<Rightarrow> json \<Rightarrow> exn + plan_item" where
  "build_item env timestamp user_id record_id user_text analysis_result =
     (case slice_to 10000 user_text of
        Inl e \<Rightarrow> Inl e
      | Inr txt \<Rightarrow>
     (case dict_get analysis_result ''emotion'' (JStr ''unknown'') of
        Inl e \<Rightarrow> Inl e
      | Inr emotion \<Rightarrow>
     (case dict_get analysis_result ''sentiment_score'' (JInt 50) of
        Inl e \<Rightarrow> Inl e
      | Inr score \<Rightarrow>
     (case py_int (int_of_str env) score of
        Inl e \<Rightarrow> Inl e
      | Inr n \<Rightarrow>
     (case dict_get analysis_result ''weekly_plan'' (JArr []) of
        Inl e \<Rightarrow> Inl e
      | Inr plan \<Rightarrow>
     (case dict_get analysis_result ''_fallback'' (JBool False) of
        Inl e \<Rightarrow> Inl e
      | Inr fb \<Rightarrow>
          Inr \<lparr> UserId = user_id, Timestamp = timestamp, RecordId = JStr record_id,
                UserText = txt, Emotion = emotion, SentimentScore = n,
                WeeklyPlan = plan, AsciiUrl = JNull, AsciiStatus = ''pending'',
                CreatedAt = timestamp, IsFallback = fb,
                AsciiGeneratedAt = None \<rparr>))))))"

definition save_to_dynamodb ::
  "penv \<Rightarrow> nat \<Rightarrow> pstate \<Rightarrow> json \<Rightarrow> string \<Rightarrow> json \<Rightarrow> json \<Rightarrow> exn option \<times> pstate" where
  "save_to_dynamodb env i st user_id record_id user_text analysis_result =
     (case build_item env (save_time env i) user_id record_id user_text analysis_result of
        Inl e \<Rightarrow> (Some e, st)
      | Inr item \<Rightarrow>
          (case put_item_fault env i of
             Some e \<Rightarrow> (Some e, st)
           | None \<Rightarrow> (None, st\<lparr>table := table_put (table st) item\<rparr>)))"

subsection \<open>push_to_sqs\<close>

text \<open>
  Without a queue URL nothing is sent. Otherwise the job is serialised and sent; a
  ClientError or BotoCoreError is caught and answered with \<open>False\<close>, any other
  exception leaves the function.
\<close>

definition job_message :: "penv \<Rightarrow> nat \<Rightarrow> string \<Rightarrow> json \<Rightarrow> json \<Rightarrow> json" where
  "job_message env i record_id emotion user_id =
     JObj [(''record_id'', JStr record_id), (''user_id'', user_id),
           (''emotion'', emotion), (''timestamp'', JStr (enqueue_time env i))]"

definition push_to_sqs ::
  "penv \<Rightarrow> nat \<Rightarrow> pstate \<Rightarrow> string \<Rightarrow> json \<Rightarrow> json \<Rightarrow> (exn + bool) \<times> pstate" where
  "push_to_sqs env i st record_id emotion user_id =
     (if P_SQS_QUEUE_URL env = [] then (Inr False, st)
      else case send_message_fault env i of
             Some e \<Rightarrow> if boto_error e then (Inr False, st) else (Inl e, st)
           | None \<Rightarrow>
               (Inr True,
                st\<lparr>sent := sent st @
                  [\<lparr> MessageBody = json_dumps env (job_message env i record_id emotion user_id),
                     MessageGroupId =
                       (if sublist ''.fifo'' (P_SQS_QUEUE_URL env) then user_id else JNull) \<rparr>]\<rparr>))"

subsection \<open>handler\<close>

datatype outcome = Skipped | Processed

text \<open>
  The body of the \<^verbatim>\<open>try\<close> for the record at position \<open>i\<close>. It ends with
  \<^verbatim>\<open>continue\<close> on an empty text (\<open>Skipped\<close>), at the end of the body (\<open>Processed\<close>), or
  with the exception that some step raised. The log line before the secrets are read
  formats \<^verbatim>\<open>len(user_text)\<close>.
\<close>

definition process_record :: "penv \<Rightarrow> nat \<Rightarrow> json \<Rightarrow> pstate \<Rightarrow> (exn + outcome) \<times> pstate" where
  "process_record env i record st =
     (case parse_kinesis_record env record of
        Inl e \<Rightarrow> (Inl e, st)
      | Inr input_data \<Rightarrow>
     (case dict_get input_data ''text'' (JStr []) of
        Inl e \<Rightarrow> (Inl e, st)
      | Inr user_text \<Rightarrow>
     (case dict_get input_data ''userId'' (JStr ''anonymous'') of
        Inl e \<Rightarrow> (Inl e, st)
      | Inr user_id \<Rightarrow>
     if \<not> truthy user_text then (Inr Skipped, st)
     else
     (case py_len user_text of
        Inl e \<Rightarrow> (Inl e, st)
      | Inr n \<Rightarrow>
     (case get_secrets env i st of
        (Inl e, st1) \<Rightarrow> (Inl e, st1)
      | (Inr secrets, st1) \<Rightarrow>
     (case dict_get secrets ''GEMINI_KEY'' (JStr []) of
        Inl e \<Rightarrow> (Inl e, st1)
      | Inr gemini_key \<Rightarrow>
     (let analysis_result = call_gemini_api env i user_text gemini_key in
      case save_to_dynamodb env i st1 user_id (uuid4 env i) user_text analysis_result of
        (Some e, st2) \<Rightarrow> (Inl e, st2)
      | (None, st2) \<Rightarrow>
     (case dict_get analysis_result ''emotion'' (JStr ''neutral'') of
        Inl e \<Rightarrow> (Inl e, st2)
      | Inr emotion \<Rightarrow>
     (case push_to_sqs env i st2 (uuid4 env i) emotion user_id of
        (Inl e, st3) \<Rightarrow> (Inl e, st3)
      | (Inr ok, st3) \<Rightarrow> (Inr Processed, st3))))))))))"

text \<open>The \<^verbatim>\<open>for\<close> loop with its two counters: an exception of the body is caught by
  \<^verbatim>\<open>except Exception\<close>, counted, and the loop goes on.\<close>

fun handle_records ::
  "penv \<Rightarrow> nat \<Rightarrow> json list \<Rightarrow> nat \<times> nat \<times> pstate \<Rightarrow> nat \<times> nat \<times> pstate" where
  "handle_records env i [] acc = acc"
| "handle_records env i (r # rs) (processed_count, error_count, st) =
     (case process_record env i r st of
        (Inl e, st') \<Rightarrow> handle_records env (Suc i) rs (processed_count, Suc error_count, st')
      | (Inr Skipped, st') \<Rightarrow> handle_records env (Suc i) rs (processed_count, error_count, st')
      | (Inr Processed, st') \<Rightarrow>
          handle_records env (Suc i) rs (Suc processed_count, error_count, st'))"

record response =
  statusCode :: nat
  body :: string

definition response_body :: "nat \<Rightarrow> nat \<Rightarrow> json" where
  "response_body processed_count error_count =
     JObj [(''message'', JStr ''Processing complete''),
           (''processed'', JInt (int processed_count)),
           (''errors'', JInt (int error_count))]"

definition handler :: "penv \<Rightarrow> json list \<Rightarrow> pstate \<Rightarrow> response \<times> pstate" where
  "handler env records st =
     (case handle_records env 0 records (0, 0, st) of
        (processed_count, error_count, st') \<Rightarrow>
          (\<lparr> statusCode = 200,
             body = json_dumps env (response_body processed_count error_count) \<rparr>, st'))"


section \<open>The artifact worker (worker.py)\<close>

subsection \<open>Clock, environment and state\<close>

text \<open>
  \<^verbatim>\<open>datetime.now(timezone.utc)\<close> as a record of its fields, and the three ways the
  worker prints it: \<^verbatim>\<open>strftime("%Y/%m/%d")\<close>,
  \<^verbatim>\<open>strftime("%Y-%m-%d %H:%M:%S UTC")\<close> and \<^verbatim>\<open>isoformat()\<close>, which leaves the
  microseconds out when they are zero. Years have four digits.
\<close>

record datetime =
  year :: nat
  month :: nat
  day :: nat
  hour :: nat
  minute :: nat
  second :: nat
  microsecond :: nat

definition strftime_path :: "datetime \<Rightarrow> string" where
  "strftime_path d = pad 4 (year d) @ ''/'' @ pad 2 (month d) @ ''/'' @ pad 2 (day d)"

definition strftime_utc :: "datetime \<Rightarrow> string" where
  "strftime_utc d =
     pad 4 (year d) @ ''-'' @ pad 2 (month d) @ ''-'' @ pad 2 (day d) @ '' '' @
     pad 2 (hour d) @ '':'' @ pad 2 (minute d) @ '':'' @ pad 2 (second d) @ '' UTC''"

definition isoformat :: "datetime \<Rightarrow> string" where
  "isoformat d =
     pad 4 (year d) @ ''-'' @ pad 2 (month d) @ ''-'' @ pad 2 (day d) @ ''T'' @
     pad 2 (hour d) @ '':'' @ pad 2 (minute d) @ '':'' @ pad 2 (second d) @
     (if microsecond d = 0 then [] else ''.'' @ pad 6 (microsecond d)) @ ''+00:00''"

text \<open>The ten entries of \<^verbatim>\<open>EMOTION_ASCII_MAP\<close>. Their values are drawings in
  box-drawing and other non-ASCII characters; the environment supplies the text of
  each drawing, and of the three constant pieces of the footer.\<close>

datatype canvas =
    Happy | Excited | Hopeful | Anxious | Stressed
  | Sad | Angry | Neutral | Tired | Grateful

text \<open>A message as \<^verbatim>\<open>receive_message\<close> delivers it.\<close>

record sqs_message =
  Body :: string
  ReceiptHandle :: string

text \<open>An object of the bucket, as the arguments of \<^verbatim>\<open>put_object\<close>.\<close>

record s3_object =
  ObjBody :: string
  ContentType :: string
  Metadata :: "(string \<times> json) list"

text \<open>
  The worker's logical clock \<open>tick\<close> counts the polls and jobs done so far. Every
  outside call takes its answer from the environment at the current tick: the poll,
  the upload, the query and the update of the table, the deletion, and the four
  readings of the wall clock a job makes. \<open>signal_at\<close> is the tick by which SIGTERM
  or SIGINT has been handled, so that \<^verbatim>\<open>shutdown_requested\<close> reads true from then on;
  \<open>None\<close> when no signal ever comes. \<open>py_str\<close> is \<^verbatim>\<open>str()\<close> on a value that is not a
  str, for the f-strings.
\<close>

record wenv =
  IS_LOCAL :: bool
  LOCALSTACK_ENDPOINT :: string
  S3_BUCKET_NAME :: string
  pictures :: "canvas \<Rightarrow> string"
  footer_head :: string
  footer_mid :: string
  footer_tail :: string
  w_json_loads :: "string \<Rightarrow> json option"
  py_str :: "json \<Rightarrow> string"
  receive_message :: "nat \<Rightarrow> exn + sqs_message list"
  delete_fault :: "nat \<Rightarrow> exn option"
  put_object_fault :: "nat \<Rightarrow> exn option"
  query_fault :: "nat \<Rightarrow> exn option"
  update_fault :: "nat \<Rightarrow> exn option"
  footer_clock :: "nat \<Rightarrow> datetime"
  key_clock :: "nat \<Rightarrow> datetime"
  meta_clock :: "nat \<Rightarrow> datetime"
  update_clock :: "nat \<Rightarrow> datetime"
  signal_at :: "nat option"

text \<open>The calls of \<^verbatim>\<open>logger\<close> in the functions modelled here, one constructor for
  each call.\<close>

datatype log_event =
    Received nat
  | PollFailed exn
  | MessageDeleted
  | DeleteFailed exn
  | Uploaded string
  | UploadFailed exn
  | RecordUpdated json
  | RecordNotFound json
  | UpdateFailed exn
  | MissingRecordId
  | Processing json json
  | ProcessedOk json
  | ProcessFailed exn
  | ShutdownStop
  | MainLoopError exn
  | ShuttingDown nat nat

text \<open>
  The state: the two counters of \<^verbatim>\<open>main\<close>, the bucket, the table, the receipt handles
  handed to \<^verbatim>\<open>delete_message\<close> so far, and the log.
\<close>

record wstate =
  tick :: nat
  processed_count :: nat
  error_count :: nat
  blobs :: "string \<rightharpoonup> s3_object"
  w_table :: "plan_item list"
  delete_requests :: "string list"
  logged :: "log_event list"

definition logs :: "log_event \<Rightarrow> wstate \<Rightarrow> wstate" where
  "logs ev st = st\<lparr>logged := logged st @ [ev]\<rparr>"

definition shutdown_requested :: "wenv \<Rightarrow> wstate \<Rightarrow> bool" where
  "shutdown_requested env st = (case signal_at env of None \<Rightarrow> False | Some s \<Rightarrow> s \<le> tick st)"

subsection \<open>ASCIIGenerator.generate\<close>

text \<open>
  \<^verbatim>\<open>str.lower\<close> and \<^verbatim>\<open>str.strip\<close> on the code points 0 to 255: the letters A to Z
  and the capital letters of Latin-1 move down by 32, and the characters that
  \<^verbatim>\<open>isspace\<close> accepts are stripped from both ends.
\<close>

definition lower_char :: "char \<Rightarrow> char" where
  "lower_char c =
     (let n = (of_char c :: nat)
      in if (65 \<le> n \<and> n \<le> 90) \<or> (192 \<le> n \<and> n \<le> 222 \<and> n \<noteq> 215)
         then char_of (n + 32) else c)"

definition lower :: "string \<Rightarrow> string" where
  "lower s = map lower_char s"

definition is_space :: "char \<Rightarrow> bool" where
  "is_space c =
     (let n = (of_char c :: nat)
      in (9 \<le> n \<and> n \<le> 13) \<or> (28 \<le> n \<and> n \<le> 32) \<or> n = 133 \<or> n = 160)"

definition strip :: "string \<Rightarrow> string" where
  "strip s = rev (dropWhile is_space (rev (dropWhile is_space s)))"

definition emotion_mapping :: "(string \<times> string) list" where
  "emotion_mapping =
     [(''joyful'', ''happy''),
      (''elated'', ''excited''),
      (''enthusiastic'', ''excited''),
      (''optimistic'', ''hopeful''),
      (''worried'', ''anxious''),
      (''nervous'', ''anxious''),
      (''overwhelmed'', ''stressed''),
      (''depressed'', ''sad''),
      (''melancholic'', ''sad''),
      (''furious'', ''angry''),
      (''irritated'', ''angry''),
      (''exhausted'', ''tired''),
      (''fatigued'', ''tired''),
      (''thankful'', ''grateful''),
      (''appreciative'', ''grateful'')]"

definition EMOTION_ASCII_MAP :: "wenv \<Rightarrow> (string \<times> string) list" where
  "EMOTION_ASCII_MAP env =
     [(''happy'', pictures env Happy),
      (''excited'', pictures env Excited),
      (''hopeful'', pictures env Hopeful),
      (''anxious'', pictures env Anxious),
      (''stressed'', pictures env Stressed),
      (''sad'', pictures env Sad),
      (''angry'', pictures env Angry),
      (''neutral'', pictures env Neutral),
      (''tired'', pictures env Tired),
      (''grateful'', pictures env Grateful)]"

text \<open>A value inside an f-string: a str is itself, anything else is printed by
  \<^verbatim>\<open>str()\<close>.\<close>

definition fstr :: "wenv \<Rightarrow> json \<Rightarrow> string" where
  "fstr env v = (case v of JStr s \<Rightarrow> s | _ \<Rightarrow> py_str env v)"

definition footer :: "wenv \<Rightarrow> string \<Rightarrow> string \<Rightarrow> string" where
  "footer env id8 timestamp =
     footer_head env @ id8 @ footer_mid env @ timestamp @ footer_tail env"

text \<open>
  \<^verbatim>\<open>generate\<close> at tick \<open>t\<close>. The arguments are what \<^verbatim>\<open>process_message\<close> read from the
  message: \<^verbatim>\<open>emotion.lower()\<close> needs a str, \<^verbatim>\<open>record_id[:8]\<close> a str or a list. The
  default of the second \<^verbatim>\<open>get\<close>, \<^verbatim>\<open>EMOTION_ASCII_MAP["neutral"]\<close>, is read before
  the lookup.
\<close>

definition generate :: "wenv \<Rightarrow> nat \<Rightarrow> json \<Rightarrow> json \<Rightarrow> exn + string" where
  "generate env t emotion record_id =
     (case emotion of
        JStr e \<Rightarrow>
          (let emotion_lower = strip (lower e);
               mapped_emotion =
                 (case map_of emotion_mapping emotion_lower of
                    None \<Rightarrow> emotion_lower | Some m \<Rightarrow> m)
           in case map_of (EMOTION_ASCII_MAP env) ''neutral'' of
                None \<Rightarrow> Inl KeyError
              | Some dflt \<Rightarrow>
                  (let ascii_art =
                         (case map_of (EMOTION_ASCII_MAP env) mapped_emotion of
                            None \<Rightarrow> dflt | Some a \<Rightarrow> a);
                       timestamp = strftime_utc (footer_clock env t)
                   in case slice_to 8 record_id of
                        Inl ex \<Rightarrow> Inl ex
                      | Inr id8 \<Rightarrow> Inr (ascii_art @ footer env (fstr env id8) timestamp)))
      | _ \<Rightarrow> Inl AttributeError)"

text \<open>
  The mapping as the specification words it: each alias folds onto its canonical
  emotion, each canonical label is itself, and every other label is the neutral
  default.
\<close>

definition template_of :: "string \<Rightarrow> canvas" where
  "template_of label =
     (if label \<in> {''happy'', ''joyful''} then Happy
      else if label \<in> {''excited'', ''elated'', ''enthusiastic''} then Excited
      else if label \<in> {''hopeful'', ''optimistic''} then Hopeful
      else if label \<in> {''anxious'', ''worried'', ''nervous''} then Anxious
      else if label \<in> {''stressed'', ''overwhelmed''} then Stressed
      else if label \<in> {''sad'', ''depressed'', ''melancholic''} then Sad
      else if label \<in> {''angry'', ''furious'', ''irritated''} then Angry
      else if label \<in> {''tired'', ''exhausted'', ''fatigued''} then Tired
      else if label \<in> {''grateful'', ''thankful'', ''appreciative''} then Grateful
      else Neutral)"

subsection \<open>Queue, bucket and table\<close>

text \<open>\<^verbatim>\<open>poll_sqs_messages\<close>: a ClientError or BotoCoreError is logged and answered
  with the empty list; any other exception leaves the function.\<close>

definition poll_sqs_messages :: "wenv \<Rightarrow> wstate \<Rightarrow> (exn + sqs_message list) \<times> wstate" where
  "poll_sqs_messages env st =
     (case receive_message env (tick st) of
        Inl e \<Rightarrow> if boto_error e then (Inr [], logs (PollFailed e) st) else (Inl e, st)
      | Inr messages \<Rightarrow>
          (Inr messages, if messages \<noteq> [] then logs (Received (length messages)) st else st))"

text \<open>\<^verbatim>\<open>delete_sqs_message\<close>: the request is made; a ClientError or BotoCoreError
  is logged and swallowed, any other exception leaves the function.\<close>

definition delete_sqs_message :: "wenv \<Rightarrow> string \<Rightarrow> wstate \<Rightarrow> exn option \<times> wstate" where
  "delete_sqs_message env receipt_handle st =
     (let st1 = st\<lparr>delete_requests := delete_requests st @ [receipt_handle]\<rparr>
      in case delete_fault env (tick st) of
           None \<Rightarrow> (None, logs MessageDeleted st1)
         | Some e \<Rightarrow> if boto_error e then (None, logs (DeleteFailed e) st1) else (Some e, st1))"

definition object_key :: "wenv \<Rightarrow> nat \<Rightarrow> json \<Rightarrow> json \<Rightarrow> string" where
  "object_key env t record_id user_id =
     ''ascii-art/'' @ fstr env user_id @ ''/'' @ strftime_path (key_clock env t) @ ''/'' @
     fstr env record_id @ ''.txt''"

definition object_url :: "wenv \<Rightarrow> string \<Rightarrow> string" where
  "object_url env key =
     (if IS_LOCAL env then LOCALSTACK_ENDPOINT env @ ''/'' @ S3_BUCKET_NAME env @ ''/'' @ key
      else ''https://'' @ S3_BUCKET_NAME env @ ''.s3.amazonaws.com/'' @ key)"

text \<open>\<^verbatim>\<open>upload_to_s3\<close>: the object is put under its key and the URL returned; a
  ClientError or BotoCoreError is logged and raised again.\<close>

definition upload_to_s3 ::
  "wenv \<Rightarrow> wstate \<Rightarrow> string \<Rightarrow> json \<Rightarrow> json \<Rightarrow> (exn + string) \<times> wstate" where
  "upload_to_s3 env st ascii_art record_id user_id =
     (let key = object_key env (tick st) record_id user_id
      in case put_object_fault env (tick st) of
           Some e \<Rightarrow> (Inl e, if boto_error e then logs (UploadFailed e) st else st)
         | None \<Rightarrow>
             (let obj = \<lparr> ObjBody = ascii_art,
                          ContentType = ''text/plain; charset=utf-8'',
                          Metadata = [(''record_id'', record_id), (''user_id'', user_id),
                                      (''generated_at'',
                                       JStr (isoformat (meta_clock env (tick st))))] \<rparr>;
                  url = object_url env key
              in (Inr url, logs (Uploaded url) (st\<lparr>blobs := (blobs st)(key \<mapsto> obj)\<rparr>))))"

text \<open>The query by partition key with the filter on \<open>RecordId\<close>, and the update of the
  item with a given primary key.\<close>

definition query_items :: "plan_item list \<Rightarrow> json \<Rightarrow> json \<Rightarrow> plan_item list" where
  "query_items tbl user_id record_id =
     filter (\<lambda>it. UserId it = user_id \<and> RecordId it = record_id) tbl"

definition update_item :: "plan_item list \<Rightarrow> plan_item \<Rightarrow> string \<Rightarrow> string \<Rightarrow> plan_item list" where
  "update_item tbl item url ts =
     map (\<lambda>it. if same_key it item
               then it\<lparr>AsciiUrl := JStr url, AsciiStatus := ''completed'',
                       AsciiGeneratedAt := Some ts\<rparr>
               else it) tbl"

text \<open>\<^verbatim>\<open>update_dynamodb\<close>: the first item found is updated; when none is found a
  warning is logged and nothing else happens. A ClientError or BotoCoreError is
  logged and raised again.\<close>

definition update_dynamodb ::
  "wenv \<Rightarrow> wstate \<Rightarrow> json \<Rightarrow> json \<Rightarrow> json \<Rightarrow> string \<Rightarrow> exn option \<times> wstate" where
  "update_dynamodb env st user_id timestamp record_id ascii_url =
     (case query_fault env (tick st) of
        Some e \<Rightarrow> (Some e, if boto_error e then logs (UpdateFailed e) st else st)
      | None \<Rightarrow>
          (case query_items (w_table st) user_id record_id of
             [] \<Rightarrow> (None, logs (RecordNotFound record_id) st)
           | item # _ \<Rightarrow>
               (case update_fault env (tick st) of
                  Some e \<Rightarrow> (Some e, if boto_error e then logs (UpdateFailed e) st else st)
                | None \<Rightarrow>
                    (None,
                     logs (RecordUpdated record_id)
                       (st\<lparr>w_table := update_item (w_table st) item ascii_url
                                          (isoformat (update_clock env (tick st)))\<rparr>)))))"

subsection \<open>process_message\<close>

text \<open>The body of the \<^verbatim>\<open>try\<close>: it returns \<open>False\<close> for a message without
  \<open>record_id\<close>, \<open>True\<close> at its end, and otherwise the exception some step raised.\<close>

definition process_body :: "wenv \<Rightarrow> sqs_message \<Rightarrow> wstate \<Rightarrow> (exn + bool) \<times> wstate" where
  "process_body env message st =
     (case w_json_loads env (Body message) of
        None \<Rightarrow> (Inl JSONDecodeError, st)
      | Some job \<Rightarrow>
     (case dict_get job ''record_id'' JNull of
        Inl e \<Rightarrow> (Inl e, st)
      | Inr record_id \<Rightarrow>
     (case dict_get job ''emotion'' (JStr ''neutral'') of
        Inl e \<Rightarrow> (Inl e, st)
      | Inr emotion \<Rightarrow>
     (case dict_get job ''user_id'' (JStr ''anonymous'') of
        Inl e \<Rightarrow> (Inl e, st)
      | Inr user_id \<Rightarrow>
     (case dict_get job ''timestamp'' JNull of
        Inl e \<Rightarrow> (Inl e, st)
      | Inr timestamp \<Rightarrow>
     if \<not> truthy record_id then (Inr False, logs MissingRecordId st)
     else
     (let st0 = logs (Processing record_id emotion) st
      in case generate env (tick st0) emotion record_id of
           Inl e \<Rightarrow> (Inl e, st0)
         | Inr ascii_art \<Rightarrow>
     (case upload_to_s3 env st0 ascii_art record_id user_id of
        (Inl e, st1) \<Rightarrow> (Inl e, st1)
      | (Inr ascii_url, st1) \<Rightarrow>
     (case update_dynamodb env st1 user_id timestamp record_id ascii_url of
        (Some e, st2) \<Rightarrow> (Inl e, st2)
      | (None, st2) \<Rightarrow> (Inr True, logs (ProcessedOk record_id) st2)))))))))"

definition process_message :: "wenv \<Rightarrow> sqs_message \<Rightarrow> wstate \<Rightarrow> bool \<times> wstate" where
  "process_message env message st =
     (case process_body env message st of
        (Inl e, st') \<Rightarrow> (False, logs (ProcessFailed e) st')
      | (Inr ok, st') \<Rightarrow> (ok, st'))"

subsection \<open>The main loop\<close>

text \<open>One pass of the \<^verbatim>\<open>for\<close> body after the shutdown check: the job is processed,
  then deleted and counted as processed, or counted as an error. The job takes one
  tick.\<close>

definition run_job :: "wenv \<Rightarrow> sqs_message \<Rightarrow> wstate \<Rightarrow> exn option \<times> wstate" where
  "run_job env message st =
     (case process_message env message st of
        (True, st1) \<Rightarrow>
          (case delete_sqs_message env (ReceiptHandle message) st1 of
             (Some e, st2) \<Rightarrow> (Some e, st2\<lparr>tick := Suc (tick st2)\<rparr>)
           | (None, st2) \<Rightarrow>
               (None, st2\<lparr>processed_count := Suc (processed_count st2),
                           tick := Suc (tick st2)\<rparr>))
      | (False, st1) \<Rightarrow>
          (None, st1\<lparr>error_count := Suc (error_count st1), tick := Suc (tick st1)\<rparr>))"

text \<open>The \<^verbatim>\<open>for\<close> loop over the polled messages: it breaks when the shutdown flag
  is set, and an exception that leaves the body ends it.\<close>

fun run_batch :: "wenv \<Rightarrow> sqs_message list \<Rightarrow> wstate \<Rightarrow> exn option \<times> wstate" where
  "run_batch env [] st = (None, st)"
| "run_batch env (message # messages) st =
     (if shutdown_requested env st then (None, logs ShutdownStop st)
      else case run_job env message st of
             (Some e, st') \<Rightarrow> (Some e, st')
           | (None, st') \<Rightarrow> run_batch env messages st')"

text \<open>The body of the \<^verbatim>\<open>while\<close> loop with its \<^verbatim>\<open>except Exception\<close>. The poll takes one
  tick; the two \<^verbatim>\<open>time.sleep\<close> calls change nothing that is modelled.\<close>

definition poll_cycle :: "wenv \<Rightarrow> wstate \<Rightarrow> wstate" where
  "poll_cycle env st =
     (case poll_sqs_messages env st of
        (Inl e, st1) \<Rightarrow> logs (MainLoopError e) (st1\<lparr>tick := Suc (tick st1)\<rparr>)
      | (Inr messages, st1) \<Rightarrow>
          (case run_batch env messages (st1\<lparr>tick := Suc (tick st1)\<rparr>) of
             (Some e, st2) \<Rightarrow> logs (MainLoopError e) st2
           | (None, st2) \<Rightarrow> st2))"

text \<open>The \<^verbatim>\<open>while not shutdown_requested\<close> loop and the final log lines. Without a
  signal the loop never ends, and the result is \<open>None\<close>.\<close>

partial_function (option) main_loop :: "wenv \<Rightarrow> wstate \<Rightarrow> wstate option" where
  "main_loop env st =
     (if shutdown_requested env st
      then Some (logs (ShuttingDown (processed_count st) (error_count st)) st)
      else main_loop env (poll_cycle env st))"

declare main_loop.simps [code]


text \<open>
  An observer of the \<^verbatim>\<open>for\<close> loop: the jobs of a batch that the loop completed, that
  is, those it reached before the flag was set or an exception left the body, and
  for which \<open>process_message\<close> returned \<open>True\<close>.
\<close>

fun completed :: "wenv \<Rightarrow> sqs_message list \<Rightarrow> wstate \<Rightarrow> sqs_message list" where
  "completed env [] st = []"
| "completed env (message # messages) st =
     (if shutdown_requested env st then []
      else (if fst (process_message env message st) then [message] else []) @
           (case run_job env message st of
              (Some e, st') \<Rightarrow> []
            | (None, st') \<Rightarrow> completed env messages st'))"

section \<open>Concrete environments\<close>

text \<open>
  A small environment for running the Lambda: the SDK is installed and answers every
  prompt with one text, by default \<open>{}\<close>, which decodes to the empty dict; the stream payload
  \<open>payload-hi\<close> decodes to the input \<open>{text: hi, userId: u1}\<close>; the secrets store,
  the table and the queue answer without fault.
\<close>

definition demo_secrets :: json where
  "demo_secrets = JObj [(''GEMINI_KEY'', JStr ''k'')]"

definition demo_input :: json where
  "demo_input = JObj [(''text'', JStr ''hi''), (''userId'', JStr ''u1'')]"

text \<open>An answer of the inference service that holds all three required fields, with
  \<^verbatim>\<open>null\<close> for the score.\<close>

definition null_score_answer :: json where
  "null_score_answer =
     JObj [(''emotion'', JStr ''sad''), (''sentiment_score'', JNull),
           (''weekly_plan'', JArr [])]"

definition demo_loads :: "string \<Rightarrow> json option" where
  "demo_loads s =
     (if s = ''{}'' then Some (JObj [])
      else if s = ''secrets'' then Some demo_secrets
      else if s = ''input-hi'' then Some demo_input
      else if s = ''answer-null-score'' then Some null_score_answer
      else None)"

text \<open>A serialiser that is enough to tell the documents of this file apart: it
  prints the counters of a batch response and the record identifier of a job.\<close>

definition demo_dumps :: "json \<Rightarrow> string" where
  "demo_dumps v =
     (case (dict_get v ''processed'' JNull, dict_get v ''errors'' JNull,
            dict_get v ''record_id'' JNull) of
        (Inr (JInt p), Inr (JInt e), _) \<Rightarrow>
           ''processed='' @ pad 2 (nat p) @ '' errors='' @ pad 2 (nat e)
      | (_, _, Inr (JStr r)) \<Rightarrow> ''job:'' @ r
      | _ \<Rightarrow> ''?'')"

definition penv_answering ::
  "string \<Rightarrow> exn + string \<Rightarrow> exn option \<Rightarrow> exn option \<Rightarrow> penv" where
  "penv_answering answer secret put_fault send_fault =
     \<lparr> GEMINI_AVAILABLE = True,
       P_SQS_QUEUE_URL = ''http://localhost:4566/queue/jobs'',
       secret_string = (\<lambda>i. secret),
       json_loads = demo_loads,
       json_dumps = demo_dumps,
       int_of_str = (\<lambda>s. None),
       b64_utf8 = (\<lambda>s. if s = ''payload-hi'' then Inr ''input-hi'' else Inl ValueError),
       generate_content = (\<lambda>i t k. Inr answer),
       put_item_fault = (\<lambda>i. put_fault),
       send_message_fault = (\<lambda>i. send_fault),
       uuid4 = (\<lambda>i. ''uuid-'' @ pad 2 i),
       save_time = (\<lambda>i. ''2026-01-01T00:00:'' @ pad 2 i @ ''.000100+00:00''),
       enqueue_time = (\<lambda>i. ''2026-01-01T00:00:'' @ pad 2 i @ ''.000200+00:00'') \<rparr>"

definition penv_with :: "exn + string \<Rightarrow> exn option \<Rightarrow> exn option \<Rightarrow> penv" where
  "penv_with secret put_fault send_fault = penv_answering ''{}'' secret put_fault send_fault"

definition demo_penv :: penv where
  "demo_penv = penv_with (Inr ''secrets'') None None"

text \<open>The item this environment writes for the first record of a batch.\<close>

definition demo_item :: plan_item where
  "demo_item =
     \<lparr> UserId = JStr ''u1'', Timestamp = ''2026-01-01T00:00:00.000100+00:00'',
       RecordId = JStr ''uuid-00'', UserText = JStr ''hi'', Emotion = JStr ''neutral'',
       SentimentScore = 50, WeeklyPlan = JArr fallback_plan, AsciiUrl = JNull,
       AsciiStatus = ''pending'', CreatedAt = ''2026-01-01T00:00:00.000100+00:00'',
       IsFallback = JBool True, AsciiGeneratedAt = None \<rparr>"

definition pstate0 :: pstate where
  "pstate0 = \<lparr> secrets_cache = JNull, table = [], sent = [] \<rparr>"

text \<open>The same environment with the table refusing every write, with the secrets
  store refusing every read, and with the queue refusing every message.\<close>

definition penv_put_fails :: penv where
  "penv_put_fails = penv_with (Inr ''secrets'') (Some ClientError) None"

definition penv_no_secrets :: penv where
  "penv_no_secrets = penv_with (Inl ClientError) None None"

definition penv_send_fails :: penv where
  "penv_send_fails = penv_with (Inr ''secrets'') None (Some ClientError)"

text \<open>The environment with every service healthy and the inference service answering
  with the null score.\<close>

definition penv_null_score :: penv where
  "penv_null_score = penv_answering ''answer-null-score'' (Inr ''secrets'') None None"

text \<open>A Kinesis record whose payload is \<open>payload-hi\<close>.\<close>

definition demo_record :: json where
  "demo_record = JObj [(''kinesis'', JObj [(''data'', JStr ''payload-hi'')])]"


text \<open>
  A small environment for running the worker. The first poll delivers the messages
  it is given and every later poll is empty; the bucket refuses uploads with
  \<open>put_fault\<close> and the table refuses queries with \<open>q_fault\<close>; \<open>sig\<close> is the tick of
  the signal. The drawings are stand-ins that name their entry.
\<close>

fun demo_pictures :: "canvas \<Rightarrow> string" where
  "demo_pictures Happy = ''<happy>''"
| "demo_pictures Excited = ''<excited>''"
| "demo_pictures Hopeful = ''<hopeful>''"
| "demo_pictures Anxious = ''<anxious>''"
| "demo_pictures Stressed = ''<stressed>''"
| "demo_pictures Sad = ''<sad>''"
| "demo_pictures Angry = ''<angry>''"
| "demo_pictures Neutral = ''<neutral>''"
| "demo_pictures Tired = ''<tired>''"
| "demo_pictures Grateful = ''<grateful>''"

definition demo_job :: "string \<Rightarrow> json" where
  "demo_job rid =
     JObj [(''record_id'', JStr rid), (''user_id'', JStr ''u1''),
           (''emotion'', JStr ''neutral''),
           (''timestamp'', JStr ''2026-01-01T00:00:00.000200+00:00'')]"

definition demo_job_noid :: json where
  "demo_job_noid = JObj [(''user_id'', JStr ''u1''), (''emotion'', JStr ''sad'')]"

definition demo_wloads :: "string \<Rightarrow> json option" where
  "demo_wloads s =
     (if s = ''job:uuid-00'' then Some (demo_job ''uuid-00'')
      else if s = ''job:uuid-lost-record'' then Some (demo_job ''uuid-lost-record'')
      else if s = ''job:none'' then Some demo_job_noid
      else None)"

definition msg_ok :: sqs_message where
  "msg_ok = \<lparr> Body = ''job:uuid-00'', ReceiptHandle = ''rh-ok'' \<rparr>"

definition msg_lost :: sqs_message where
  "msg_lost = \<lparr> Body = ''job:uuid-lost-record'', ReceiptHandle = ''rh-lost'' \<rparr>"

definition msg_noid :: sqs_message where
  "msg_noid = \<lparr> Body = ''job:none'', ReceiptHandle = ''rh-noid'' \<rparr>"

definition demo_now :: datetime where
  "demo_now = \<lparr> year = 2026, month = 1, day = 2, hour = 3, minute = 4, second = 5,
                microsecond = 0 \<rparr>"

definition wenv_with ::
  "sqs_message list \<Rightarrow> exn option \<Rightarrow> exn option \<Rightarrow> nat option \<Rightarrow> wenv" where
  "wenv_with batch put_fault q_fault sig =
     \<lparr> IS_LOCAL = True,
       LOCALSTACK_ENDPOINT = ''http://localhost:4566'',
       S3_BUCKET_NAME = ''bucket'',
       pictures = demo_pictures,
       footer_head = '' ID: '',
       footer_mid = '' Generated: '',
       footer_tail = '' '',
       w_json_loads = demo_wloads,
       py_str = (\<lambda>v. ''?''),
       receive_message = (\<lambda>t. if t = 0 then Inr batch else Inr []),
       delete_fault = (\<lambda>t. None),
       put_object_fault = (\<lambda>t. put_fault),
       query_fault = (\<lambda>t. q_fault),
       update_fault = (\<lambda>t. None),
       footer_clock = (\<lambda>t. demo_now),
       key_clock = (\<lambda>t. demo_now),
       meta_clock = (\<lambda>t. demo_now),
       update_clock = (\<lambda>t. demo_now),
       signal_at = sig \<rparr>"

definition demo_wenv :: wenv where
  "demo_wenv = wenv_with [msg_ok, msg_lost, msg_noid] None None None"

text \<open>The worker's state before its first poll, with the table holding one item as
  the Lambda writes it.\<close>

definition stored_item :: plan_item where
  "stored_item =
     \<lparr> UserId = JStr ''u1'', Timestamp = ''2026-01-01T00:00:00.000100+00:00'',
       RecordId = JStr ''uuid-00'', UserText = JStr ''hi'', Emotion = JStr ''neutral'',
       SentimentScore = 50, WeeklyPlan = JArr [], AsciiUrl = JNull,
       AsciiStatus = ''pending'', CreatedAt = ''2026-01-01T00:00:00.000100+00:00'',
       IsFallback = JBool True, AsciiGeneratedAt = None \<rparr>"

definition wstate0 :: wstate where
  "wstate0 =
     \<lparr> tick = 0, processed_count = 0, error_count = 0, blobs = Map.empty,
       w_table = [stored_item], delete_requests = [], logged = [] \<rparr>"


text \<open>The worker's environment with the signal handled by tick 2, and the state right
  after the first poll.\<close>

definition wenv_signal :: wenv where
  "wenv_signal = wenv_with [msg_ok, msg_lost, msg_noid] None None (Some 2)"

definition wstate_polled :: wstate where
  "wstate_polled = (logs (Received 3) wstate0)\<lparr>tick := Suc 0\<rparr>"

text \<open>The worker's environment with the bucket refusing every upload.\<close>

definition wenv_upload_fails :: wenv where
  "wenv_upload_fails = wenv_with [msg_ok, msg_lost, msg_noid] (Some ClientError) None None"

section \<open>Properties of the processor Lambda\<close>

subsection \<open>The inference call and its fallback\<close>

lemma validate_fields_obj:
  "validate_fields fs (JObj kvs) = None \<longleftrightarrow> (\<forall>f\<in>set fs. map_of kvs f \<noteq> None)"
  by (induction fs) auto

text \<open>A result that comes back from the \<^verbatim>\<open>try\<close> body is a decoded dict that holds every
  required field.\<close>

lemma gemini_try_Inr:
  assumes "gemini_try env i user_text api_key = Inr result"
  shows "\<exists>rsp kvs. generate_content env i user_text api_key = Inr rsp
           \<and> json_loads env rsp = Some result \<and> result = JObj kvs
           \<and> (\<forall>f\<in>set required_fields. map_of kvs f \<noteq> None)"
proof -
  from assms obtain rsp where t: "generate_content env i user_text api_key = Inr rsp"
    by (auto simp: gemini_try_def split: sum.splits)
  from assms t have l: "json_loads env rsp = Some result"
    by (auto simp: gemini_try_def split: sum.splits option.splits)
  from assms t l have v: "validate_fields required_fields result = None"
    and g: "\<exists>v. getitem_str result ''emotion'' = Inr v"
    by (auto simp: gemini_try_def split: sum.splits option.splits)
  from g obtain kvs where r: "result = JObj kvs"
    by (cases result) auto
  from v r have "\<forall>f\<in>set required_fields. map_of kvs f \<noteq> None"
    by (simp only: validate_fields_obj)
  with t l r show ?thesis by blast
qed

lemma fallback_golden:
  "dict_get get_fallback_response ''emotion'' d = Inr (JStr ''neutral'')"
  "dict_get get_fallback_response ''sentiment_score'' d = Inr (JInt 50)"
  "dict_get get_fallback_response ''weekly_plan'' d = Inr (JArr fallback_plan)"
  "dict_get get_fallback_response ''_fallback'' d = Inr (JBool True)"
  "map (\<lambda>e. getitem_str e ''day'') fallback_plan =
     map (Inr \<circ> JStr) [''Monday'', ''Tuesday'', ''Wednesday'', ''Thursday'',
                        ''Friday'', ''Saturday'', ''Sunday'']"
  by (simp_all add: get_fallback_response_def fallback_plan_def day_entry_def)

text \<open>
  C1. Whenever the inference call fails (the SDK is not installed, the call raises, the
  response text is not JSON, or the decoded document is not a dict holding all three
  required fields), \<open>call_gemini_api\<close> returns the fallback payload. That payload is
  one constant: its emotion is \<open>neutral\<close>, its score 50, its plan the seven days Monday
  to Sunday, and its \<open>_fallback\<close> flag is true.
\<close>

theorem call_gemini_api_fallback:
  assumes "\<not> GEMINI_AVAILABLE env
     \<or> (\<exists>e. generate_content env i user_text api_key = Inl e)
     \<or> (\<exists>rsp. generate_content env i user_text api_key = Inr rsp
            \<and> json_loads env rsp = None)
     \<or> (\<exists>rsp r. generate_content env i user_text api_key = Inr rsp
            \<and> json_loads env rsp = Some r
            \<and> (\<forall>kvs. r = JObj kvs \<longrightarrow> (\<exists>f\<in>set required_fields. map_of kvs f = None)))"
  shows "call_gemini_api env i user_text api_key = get_fallback_response
     \<and> dict_get get_fallback_response ''emotion'' JNull = Inr (JStr ''neutral'')
     \<and> dict_get get_fallback_response ''sentiment_score'' JNull = Inr (JInt 50)
     \<and> dict_get get_fallback_response ''weekly_plan'' JNull = Inr (JArr fallback_plan)
     \<and> length fallback_plan = 7
     \<and> dict_get get_fallback_response ''_fallback'' JNull = Inr (JBool True)"
proof -
  have "call_gemini_api env i user_text api_key = get_fallback_response"
  proof (cases "GEMINI_AVAILABLE env")
    case False
    then show ?thesis by (simp add: call_gemini_api_def)
  next
    case True
    have "\<forall>result. gemini_try env i user_text api_key \<noteq> Inr result"
    proof (intro allI notI)
      fix result assume "gemini_try env i user_text api_key = Inr result"
      from gemini_try_Inr [OF this] obtain rsp kvs where
        "generate_content env i user_text api_key = Inr rsp"
        "json_loads env rsp = Some result" "result = JObj kvs"
        "\<forall>f\<in>set required_fields. map_of kvs f \<noteq> None" by blast
      with assms True show False by auto
    qed
    then show ?thesis
      by (auto simp: call_gemini_api_def split: sum.splits)
  qed
  moreover have "length fallback_plan = 7"
    by (simp add: fallback_plan_def)
  ultimately show ?thesis
    by (simp add: fallback_golden)
qed

theorem call_gemini_api_fallback_witness:
  "generate_content demo_penv 0 (JStr ''hi'') (JStr ''k'') = Inr ''{}''
   \<and> json_loads demo_penv ''{}'' = Some (JObj [])
   \<and> call_gemini_api demo_penv 0 (JStr ''hi'') (JStr ''k'') = get_fallback_response"
proof -
  have g: "generate_content demo_penv 0 (JStr ''hi'') (JStr ''k'') = Inr ''{}''"
    by (simp add: demo_penv_def penv_with_def penv_answering_def)
  have l: "json_loads demo_penv ''{}'' = Some (JObj [])"
    by (simp add: demo_penv_def penv_with_def penv_answering_def demo_loads_def)
  have "\<forall>kvs. JObj [] = JObj kvs \<longrightarrow> (\<exists>f\<in>set required_fields. map_of kvs f = None)"
    by (auto simp: required_fields_def)
  with g l have "\<exists>rsp r. generate_content demo_penv 0 (JStr ''hi'') (JStr ''k'') = Inr rsp
            \<and> json_loads demo_penv rsp = Some r
            \<and> (\<forall>kvs. r = JObj kvs \<longrightarrow> (\<exists>f\<in>set required_fields. map_of kvs f = None))"
    by blast
  then have "call_gemini_api demo_penv 0 (JStr ''hi'') (JStr ''k'') = get_fallback_response"
    using call_gemini_api_fallback [of demo_penv 0 "JStr ''hi''" "JStr ''k''"] by blast
  with g l show ?thesis by simp
qed


subsection \<open>Writing the record\<close>

lemma call_gemini_api_dict:
  "\<exists>akvs. call_gemini_api env i user_text api_key = JObj akvs"
proof (cases "gemini_try env i user_text api_key")
  case (Inl e)
  then show ?thesis by (simp add: call_gemini_api_def get_fallback_response_def)
next
  case (Inr result)
  from gemini_try_Inr [OF this] obtain kvs where "result = JObj kvs" by blast
  with Inr show ?thesis by (simp add: call_gemini_api_def get_fallback_response_def)
qed

lemma get_secrets_keeps:
  "get_secrets env i st = (r, st1) \<Longrightarrow> table st1 = table st \<and> sent st1 = sent st"
  by (auto simp: get_secrets_def split: if_splits sum.splits option.splits)

lemma push_to_sqs_table:
  "push_to_sqs env i st rid emo uid = (r, st') \<Longrightarrow> table st' = table st"
  by (auto simp: push_to_sqs_def split: if_splits option.splits)

lemma build_item_fields:
  assumes "build_item env ts user_id rid (JStr t) a = Inr item"
  shows "AsciiStatus item = ''pending'' \<and> AsciiUrl item = JNull
      \<and> UserText item = JStr (take 10000 t) \<and> RecordId item = JStr rid
      \<and> UserId item = user_id \<and> Timestamp item = ts"
  using assms by (auto simp: build_item_def split: sum.splits)

lemma build_item_ok:
  assumes "a = JObj akvs"
    and "dict_get a ''sentiment_score'' (JInt 50) = Inr score"
    and "py_int (int_of_str env) score = Inr n"
  shows "\<exists>item. build_item env ts user_id rid (JStr t) a = Inr item"
  using assms by (simp add: build_item_def)

text \<open>Once the item is written, what is left of the body is the dispatch.\<close>

lemma process_record_after_save:
  assumes "parse_kinesis_record env record = Inr (JObj kvs)"
    and "map_of kvs ''text'' = Some (JStr t)" and "t \<noteq> []"
    and "dict_get (JObj kvs) ''userId'' (JStr ''anonymous'') = Inr uid"
    and "get_secrets env i st = (Inr (JObj skvs), st1)"
    and "dict_get (JObj skvs) ''GEMINI_KEY'' (JStr []) = Inr key"
    and "build_item env (save_time env i) uid (uuid4 env i) (JStr t)
           (call_gemini_api env i (JStr t) key) = Inr item"
    and "put_item_fault env i = None"
  shows "\<exists>emo. process_record env i record st =
     (case push_to_sqs env i (st1\<lparr>table := table_put (table st1) item\<rparr>) (uuid4 env i) emo uid of
        (Inl e, st3) \<Rightarrow> (Inl e, st3)
      | (Inr ok, st3) \<Rightarrow> (Inr Processed, st3))"
proof -
  let ?a = "call_gemini_api env i (JStr t) key"
  obtain akvs where a: "?a = JObj akvs" using call_gemini_api_dict by blast
  have sv: "save_to_dynamodb env i st1 uid (uuid4 env i) (JStr t) ?a
        = (None, st1\<lparr>table := table_put (table st1) item\<rparr>)"
    using assms(7,8) by (simp add: save_to_dynamodb_def)
  have u: "uid = (case map_of kvs ''userId'' of None \<Rightarrow> JStr ''anonymous'' | Some v \<Rightarrow> v)"
    and k: "key = (case map_of skvs ''GEMINI_KEY'' of None \<Rightarrow> JStr [] | Some v \<Rightarrow> v)"
    using assms(4,6) by simp_all
  have "process_record env i record st =
     (case push_to_sqs env i (st1\<lparr>table := table_put (table st1) item\<rparr>) (uuid4 env i)
             (case map_of akvs ''emotion'' of None \<Rightarrow> JStr ''neutral'' | Some v \<Rightarrow> v) uid of
        (Inl e, st3) \<Rightarrow> (Inl e, st3)
      | (Inr ok, st3) \<Rightarrow> (Inr Processed, st3))"
    using assms(1,2,3,5) sv a u k
    by (simp add: process_record_def Let_def)
  then show ?thesis by blast
qed

text \<open>Evaluation of the small environment, shared by the closed theorems below.\<close>

lemma pad_2: "pad 2 n = [digit (n div 10), digit n]"
  by (simp add: numeral_2_eq_2)

lemma pad_4:
  "pad 4 n = [digit (n div 10 div 10 div 10), digit (n div 10 div 10), digit (n div 10), digit n]"
proof -
  have "pad (Suc (Suc (Suc (Suc 0)))) n =
      [digit (n div 10 div 10 div 10), digit (n div 10 div 10), digit (n div 10), digit n]"
    by simp
  moreover have "(4::nat) = Suc (Suc (Suc (Suc 0)))" by simp
  ultimately show ?thesis by (simp only:)
qed


lemma with_fields:
  "GEMINI_AVAILABLE (penv_with s p q)"
  "P_SQS_QUEUE_URL (penv_with s p q) = ''http://localhost:4566/queue/jobs''"
  "secret_string (penv_with s p q) i = s"
  "json_loads (penv_with s p q) = demo_loads"
  "json_dumps (penv_with s p q) = demo_dumps"
  "int_of_str (penv_with s p q) = (\<lambda>s. None)"
  "b64_utf8 (penv_with s p q) ''payload-hi'' = Inr ''input-hi''"
  "generate_content (penv_with s p q) i t k = Inr ''{}''"
  "put_item_fault (penv_with s p q) i = p"
  "send_message_fault (penv_with s p q) i = q"
  "uuid4 (penv_with s p q) i = ''uuid-'' @ pad 2 i"
  "save_time (penv_with s p q) i = ''2026-01-01T00:00:'' @ pad 2 i @ ''.000100+00:00''"
  "enqueue_time (penv_with s p q) i = ''2026-01-01T00:00:'' @ pad 2 i @ ''.000200+00:00''"
  by (simp_all add: penv_with_def penv_answering_def)

lemma pad_2_values: "pad 2 0 = ''00''" "pad 2 (Suc 0) = ''01''" "pad 2 2 = ''02''"
  by (simp_all add: pad_2 digit_def)

lemma with_parse: "parse_kinesis_record (penv_with s p q) demo_record = Inr demo_input"
  by (simp add: parse_kinesis_record_def demo_record_def with_fields demo_loads_def)

lemma with_secrets:
  "get_secrets (penv_with (Inr ''secrets'') p q) i pstate0
     = (Inr demo_secrets, pstate0\<lparr>secrets_cache := demo_secrets\<rparr>)"
  "get_secrets (penv_with (Inl e) p q) i pstate0 = (Inl e, pstate0)"
  by (simp_all add: get_secrets_def pstate0_def with_fields demo_loads_def)

lemma with_call: "call_gemini_api (penv_with s p q) i t k = get_fallback_response"
  by (simp add: call_gemini_api_def gemini_try_def with_fields demo_loads_def
      required_fields_def)

lemma with_build:
  "build_item (penv_with s p q) (save_time (penv_with s p q) 0) (JStr ''u1'')
     (uuid4 (penv_with s p q) 0) (JStr ''hi'')
     (call_gemini_api (penv_with s p q) 0 (JStr ''hi'') (JStr ''k'')) = Inr demo_item"
  by (simp add: with_call with_fields pad_2_values)
     (simp add: build_item_def get_fallback_response_def demo_item_def)

lemma demo_input_fields:
  "demo_input = JObj [(''text'', JStr ''hi''), (''userId'', JStr ''u1'')]"
  "map_of [(''text'', JStr ''hi''), (''userId'', JStr ''u1'')] ''text'' = Some (JStr ''hi'')"
  "dict_get (JObj [(''text'', JStr ''hi''), (''userId'', JStr ''u1'')]) ''userId''
     (JStr ''anonymous'') = Inr (JStr ''u1'')"
  "demo_secrets = JObj [(''GEMINI_KEY'', JStr ''k'')]"
  "dict_get (JObj [(''GEMINI_KEY'', JStr ''k'')]) ''GEMINI_KEY'' (JStr []) = Inr (JStr ''k'')"
  by (simp_all add: demo_input_def demo_secrets_def)

lemma process_record_put_fault:
  assumes "parse_kinesis_record env record = Inr (JObj kvs)"
    and "map_of kvs ''text'' = Some (JStr t)" and "t \<noteq> []"
    and "dict_get (JObj kvs) ''userId'' (JStr ''anonymous'') = Inr uid"
    and "get_secrets env i st = (Inr (JObj skvs), st1)"
    and "dict_get (JObj skvs) ''GEMINI_KEY'' (JStr []) = Inr key"
    and "put_item_fault env i = Some e"
    and "build_item env (save_time env i) uid (uuid4 env i) (JStr t)
           (call_gemini_api env i (JStr t) key) = Inr item"
  shows "process_record env i record st = (Inl e, st1)"
proof -
  have sv: "save_to_dynamodb env i st1 uid (uuid4 env i) (JStr t)
      (call_gemini_api env i (JStr t) key) = (Some e, st1)"
    using assms(7,8) by (simp add: save_to_dynamodb_def)
  have u: "uid = (case map_of kvs ''userId'' of None \<Rightarrow> JStr ''anonymous'' | Some v \<Rightarrow> v)"
    and k: "key = (case map_of skvs ''GEMINI_KEY'' of None \<Rightarrow> JStr [] | Some v \<Rightarrow> v)"
    using assms(4,6) by simp_all
  show ?thesis
    using assms(1,2,3,5) sv u k by (simp add: process_record_def Let_def)
qed


lemma put_fails_process_record:
  "process_record penv_put_fails 0 demo_record pstate0
     = (Inl ClientError, pstate0\<lparr>secrets_cache := demo_secrets\<rparr>)"
proof -
  let ?env = "penv_with (Inr ''secrets'') (Some ClientError) None"
  have p: "parse_kinesis_record ?env demo_record
             = Inr (JObj [(''text'', JStr ''hi''), (''userId'', JStr ''u1'')])"
    by (simp add: with_parse demo_input_def)
  have g: "get_secrets ?env 0 pstate0
             = (Inr (JObj [(''GEMINI_KEY'', JStr ''k'')]), pstate0\<lparr>secrets_cache := demo_secrets\<rparr>)"
    by (simp add: with_secrets demo_secrets_def)
  have f: "put_item_fault ?env 0 = Some ClientError"
    by (simp add: with_fields)
  have "process_record ?env 0 demo_record pstate0
          = (Inl ClientError, pstate0\<lparr>secrets_cache := demo_secrets\<rparr>)"
    by (rule process_record_put_fault
          [OF p demo_input_fields(2) _ demo_input_fields(3) g demo_input_fields(5) f with_build])
       simp
  then show ?thesis by (simp add: penv_put_fails_def)
qed

text \<open>
  A fault of the table. When \<^verbatim>\<open>put_item\<close> raises, \<open>save_to_dynamodb\<close> raises the
  exception again, the handler counts the record as an error and the table stays
  empty: the write depends on the table by design.
\<close>

theorem put_fault_record_not_persisted:
  "parse_kinesis_record penv_put_fails demo_record = Inr demo_input
   \<and> dict_get demo_input ''text'' (JStr []) = Inr (JStr ''hi'')
   \<and> table (snd (handler penv_put_fails [demo_record] pstate0)) = []
   \<and> body (fst (handler penv_put_fails [demo_record] pstate0)) = ''processed=00 errors=01''"
proof -
  have "parse_kinesis_record penv_put_fails demo_record = Inr demo_input"
    by (simp add: penv_put_fails_def with_parse)
  moreover have "dict_get demo_input ''text'' (JStr []) = Inr (JStr ''hi'')"
    by (simp add: demo_input_def)
  moreover have "handler penv_put_fails [demo_record] pstate0
      = (\<lparr> statusCode = 200, body = ''processed=00 errors=01'' \<rparr>,
         pstate0\<lparr>secrets_cache := demo_secrets\<rparr>)"
    by (simp add: handler_def put_fails_process_record response_body_def)
       (simp add: penv_put_fails_def with_fields demo_dumps_def pad_2_values)
  ultimately show ?thesis by (simp add: pstate0_def)
qed

text \<open>
  The write when the score converts. For a record that decodes to a dict whose text
  is a non-empty str: if the secrets are read, the score of the analysis converts with \<^verbatim>\<open>int\<close>, and
  \<^verbatim>\<open>put_item\<close> does not raise, then the record's pass through the loop body writes
  exactly one item into the table, and that item has status \<open>pending\<close>, URL
  \<^verbatim>\<open>None\<close>, the first 10000 characters of the text, and the record's fresh identifier.
\<close>

theorem process_record_persists:
  assumes "parse_kinesis_record env record = Inr (JObj kvs)"
    and "map_of kvs ''text'' = Some (JStr t)" and "t \<noteq> []"
    and "get_secrets env i st = (Inr (JObj skvs), st1)"
    and "dict_get (JObj skvs) ''GEMINI_KEY'' (JStr []) = Inr key"
    and "dict_get (call_gemini_api env i (JStr t) key) ''sentiment_score'' (JInt 50) = Inr score"
    and "py_int (int_of_str env) score = Inr n"
    and "put_item_fault env i = None"
  shows "\<exists>item. table (snd (process_record env i record st)) = table_put (table st) item
     \<and> item \<in> set (table (snd (process_record env i record st)))
     \<and> AsciiStatus item = ''pending'' \<and> AsciiUrl item = JNull
     \<and> UserText item = JStr (take 10000 t) \<and> length (take 10000 t) \<le> 10000
     \<and> RecordId item = JStr (uuid4 env i)"
proof -
  obtain uid where u: "dict_get (JObj kvs) ''userId'' (JStr ''anonymous'') = Inr uid"
    by simp
  obtain akvs where a: "call_gemini_api env i (JStr t) key = JObj akvs"
    using call_gemini_api_dict by blast
  from build_item_ok [OF a assms(6,7)]
  obtain item where b: "build_item env (save_time env i) uid (uuid4 env i) (JStr t)
      (call_gemini_api env i (JStr t) key) = Inr item"
    by blast
  from process_record_after_save [OF assms(1,2,3) u assms(4,5) b assms(8)]
  obtain emo where pr: "process_record env i record st =
     (case push_to_sqs env i (st1\<lparr>table := table_put (table st1) item\<rparr>) (uuid4 env i) emo uid of
        (Inl e, st3) \<Rightarrow> (Inl e, st3)
      | (Inr ok, st3) \<Rightarrow> (Inr Processed, st3))" by blast
  obtain r st3 where ps: "push_to_sqs env i (st1\<lparr>table := table_put (table st1) item\<rparr>)
       (uuid4 env i) emo uid = (r, st3)"
    by (cases "push_to_sqs env i (st1\<lparr>table := table_put (table st1) item\<rparr>)
       (uuid4 env i) emo uid") blast
  from pr ps have "snd (process_record env i record st) = st3"
    by (simp split: sum.splits)
  with push_to_sqs_table [OF ps] get_secrets_keeps [OF assms(4)]
  have tb: "table (snd (process_record env i record st)) = table_put (table st) item"
    by simp
  have "item \<in> set (table_put (table st) item)"
    by (simp add: table_put_def)
  with tb build_item_fields [OF b] show ?thesis by auto
qed


theorem process_record_persists_witness:
  "parse_kinesis_record demo_penv demo_record = Inr demo_input
   \<and> map_of [(''text'', JStr ''hi''), (''userId'', JStr ''u1'')] ''text'' = Some (JStr ''hi'')
   \<and> get_secrets demo_penv 0 pstate0 = (Inr demo_secrets, pstate0\<lparr>secrets_cache := demo_secrets\<rparr>)
   \<and> py_int (int_of_str demo_penv) (JInt 50) = Inr 50
   \<and> put_item_fault demo_penv 0 = None
   \<and> (\<exists>item. table (snd (process_record demo_penv 0 demo_record pstate0)) = table_put [] item
        \<and> AsciiStatus item = ''pending'' \<and> AsciiUrl item = JNull
        \<and> UserText item = JStr ''hi'' \<and> RecordId item = JStr ''uuid-00'')"
proof -
  have h1: "parse_kinesis_record demo_penv demo_record
              = Inr (JObj [(''text'', JStr ''hi''), (''userId'', JStr ''u1'')])"
    by (simp add: demo_penv_def with_parse demo_input_def)
  note h2 = demo_input_fields(2)
  have h3: "''hi'' \<noteq> []" by simp
  have h4: "get_secrets demo_penv 0 pstate0
              = (Inr (JObj [(''GEMINI_KEY'', JStr ''k'')]), pstate0\<lparr>secrets_cache := demo_secrets\<rparr>)"
    by (simp add: demo_penv_def with_secrets demo_secrets_def)
  note h5 = demo_input_fields(5)
  have h6: "dict_get (call_gemini_api demo_penv 0 (JStr ''hi'') (JStr ''k'')) ''sentiment_score''
              (JInt 50) = Inr (JInt 50)"
    by (simp add: demo_penv_def with_call get_fallback_response_def)
  have h7: "py_int (int_of_str demo_penv) (JInt 50) = Inr 50" by simp
  have h8: "put_item_fault demo_penv 0 = None" by (simp add: demo_penv_def with_fields)
  from process_record_persists [OF h1 h2 h3 h4 h5 h6 h7 h8]
  obtain item where
    "table (snd (process_record demo_penv 0 demo_record pstate0)) = table_put (table pstate0) item"
    "AsciiStatus item = ''pending''" "AsciiUrl item = JNull"
    "UserText item = JStr (take 10000 ''hi'')" "RecordId item = JStr (uuid4 demo_penv 0)"
    by blast
  then have "\<exists>item. table (snd (process_record demo_penv 0 demo_record pstate0)) = table_put [] item
        \<and> AsciiStatus item = ''pending'' \<and> AsciiUrl item = JNull
        \<and> UserText item = JStr ''hi'' \<and> RecordId item = JStr ''uuid-00''"
    by (auto simp: pstate0_def demo_penv_def with_fields pad_2_values)
  with h1 h2 h4 h7 h8 show ?thesis by (simp add: demo_input_def demo_secrets_def)
qed

subsection \<open>An answer without a score\<close>

lemma process_record_build_fault:
  assumes "parse_kinesis_record env record = Inr (JObj kvs)"
    and "map_of kvs ''text'' = Some (JStr t)" and "t \<noteq> []"
    and "dict_get (JObj kvs) ''userId'' (JStr ''anonymous'') = Inr uid"
    and "get_secrets env i st = (Inr (JObj skvs), st1)"
    and "dict_get (JObj skvs) ''GEMINI_KEY'' (JStr []) = Inr key"
    and "build_item env (save_time env i) uid (uuid4 env i) (JStr t)
           (call_gemini_api env i (JStr t) key) = Inl e"
  shows "process_record env i record st = (Inl e, st1)"
proof -
  have sv: "save_to_dynamodb env i st1 uid (uuid4 env i) (JStr t)
      (call_gemini_api env i (JStr t) key) = (Some e, st1)"
    using assms(7) by (simp add: save_to_dynamodb_def)
  have u: "uid = (case map_of kvs ''userId'' of None \<Rightarrow> JStr ''anonymous'' | Some v \<Rightarrow> v)"
    and k: "key = (case map_of skvs ''GEMINI_KEY'' of None \<Rightarrow> JStr [] | Some v \<Rightarrow> v)"
    using assms(4,6) by simp_all
  show ?thesis
    using assms(1,2,3,5) sv u k by (simp add: process_record_def Let_def)
qed

lemma null_score_fields:
  "GEMINI_AVAILABLE penv_null_score"
  "secret_string penv_null_score i = Inr ''secrets''"
  "json_loads penv_null_score = demo_loads"
  "json_dumps penv_null_score = demo_dumps"
  "b64_utf8 penv_null_score ''payload-hi'' = Inr ''input-hi''"
  "generate_content penv_null_score i t k = Inr ''answer-null-score''"
  "put_item_fault penv_null_score i = None"
  "send_message_fault penv_null_score i = None"
  by (simp_all add: penv_null_score_def penv_answering_def)

lemma null_score_parse: "parse_kinesis_record penv_null_score demo_record = Inr demo_input"
  by (simp add: parse_kinesis_record_def demo_record_def null_score_fields demo_loads_def)

lemma null_score_secrets:
  "get_secrets penv_null_score i pstate0
     = (Inr demo_secrets, pstate0\<lparr>secrets_cache := demo_secrets\<rparr>)"
  by (simp add: get_secrets_def pstate0_def null_score_fields demo_loads_def)

lemma null_score_call: "call_gemini_api penv_null_score i t k = null_score_answer"
  by (simp add: call_gemini_api_def gemini_try_def null_score_fields demo_loads_def
      required_fields_def null_score_answer_def)

lemma null_score_build:
  "build_item penv_null_score ts uid rid (JStr ''hi'')
     (call_gemini_api penv_null_score 0 (JStr ''hi'') (JStr ''k'')) = Inl TypeError"
  by (simp add: null_score_call) (simp add: build_item_def null_score_answer_def)

lemma null_score_process_record:
  "process_record penv_null_score 0 demo_record pstate0
     = (Inl TypeError, pstate0\<lparr>secrets_cache := demo_secrets\<rparr>)"
proof -
  have p: "parse_kinesis_record penv_null_score demo_record
             = Inr (JObj [(''text'', JStr ''hi''), (''userId'', JStr ''u1'')])"
    by (simp add: null_score_parse demo_input_def)
  have g: "get_secrets penv_null_score 0 pstate0
             = (Inr (JObj [(''GEMINI_KEY'', JStr ''k'')]), pstate0\<lparr>secrets_cache := demo_secrets\<rparr>)"
    by (simp add: null_score_secrets demo_secrets_def)
  show ?thesis
    by (rule process_record_build_fault
          [OF p demo_input_fields(2) _ demo_input_fields(3) g demo_input_fields(5)
              null_score_build])
       simp
qed

text \<open>
  C2. The claim: every stream record that decodes to a non-empty text leaves exactly
  one item in the table, with status \<open>pending\<close>, no URL, and the text cut to 10000
  characters. The code breaks it with every service healthy. The record decodes to
  the text \<open>hi\<close>; the secrets are read; the table takes every write; the inference
  service answers with a document that holds all three required fields and
  \<^verbatim>\<open>null\<close> for the score. The field check of \<open>call_gemini_api\<close> looks only for the
  presence of the fields, so the document is returned as the analysis and not
  replaced by the fallback; \<^verbatim>\<open>int(None)\<close> then raises a TypeError while
  \<open>save_to_dynamodb\<close> builds the item, nothing is written, and the handler counts the
  record as an error.
\<close>

theorem null_score_record_lost:
  "parse_kinesis_record penv_null_score demo_record = Inr demo_input
   \<and> dict_get demo_input ''text'' (JStr []) = Inr (JStr ''hi'')
   \<and> get_secrets penv_null_score 0 pstate0
        = (Inr demo_secrets, pstate0\<lparr>secrets_cache := demo_secrets\<rparr>)
   \<and> put_item_fault penv_null_score 0 = None
   \<and> send_message_fault penv_null_score 0 = None
   \<and> json_loads penv_null_score ''answer-null-score''
        = Some (JObj [(''emotion'', JStr ''sad''), (''sentiment_score'', JNull),
                      (''weekly_plan'', JArr [])])
   \<and> call_gemini_api penv_null_score 0 (JStr ''hi'') (JStr ''k'')
        = JObj [(''emotion'', JStr ''sad''), (''sentiment_score'', JNull),
                (''weekly_plan'', JArr [])]
   \<and> process_record penv_null_score 0 demo_record pstate0
        = (Inl TypeError, pstate0\<lparr>secrets_cache := demo_secrets\<rparr>)
   \<and> table (snd (handler penv_null_score [demo_record] pstate0)) = []
   \<and> body (fst (handler penv_null_score [demo_record] pstate0)) = ''processed=00 errors=01''"
proof -
  have "dict_get demo_input ''text'' (JStr []) = Inr (JStr ''hi'')"
    by (simp add: demo_input_def)
  moreover have "json_loads penv_null_score ''answer-null-score''
        = Some (JObj [(''emotion'', JStr ''sad''), (''sentiment_score'', JNull),
                      (''weekly_plan'', JArr [])])"
    by (simp add: null_score_fields demo_loads_def null_score_answer_def)
  moreover have "call_gemini_api penv_null_score 0 (JStr ''hi'') (JStr ''k'')
        = JObj [(''emotion'', JStr ''sad''), (''sentiment_score'', JNull),
                (''weekly_plan'', JArr [])]"
    by (simp add: null_score_call null_score_answer_def)
  moreover have "handler penv_null_score [demo_record] pstate0
      = (\<lparr> statusCode = 200, body = ''processed=00 errors=01'' \<rparr>,
         pstate0\<lparr>secrets_cache := demo_secrets\<rparr>)"
    by (simp add: handler_def null_score_process_record response_body_def)
       (simp add: null_score_fields demo_dumps_def pad_2_values)
  ultimately show ?thesis
    using null_score_parse null_score_secrets [of 0] null_score_fields(7,8) [of 0]
      null_score_process_record
    by (simp add: pstate0_def)
qed

subsection \<open>Dispatch failures\<close>

text \<open>
  C4. When \<^verbatim>\<open>send_message\<close> fails with a ClientError or a BotoCoreError,
  \<open>push_to_sqs\<close> returns \<open>False\<close> to its caller instead of raising, and leaves the
  state as it was. In the handler, a record whose item was written before such a
  failure is counted as processed, and the state after it is the state right after
  the write: the item is in the table, unchanged.
\<close>

theorem push_to_sqs_transport_failure:
  assumes "send_message_fault env i = Some e" and "boto_error e"
  shows "push_to_sqs env i st record_id emotion user_id = (Inr False, st)
     \<and> (parse_kinesis_record env record = Inr (JObj kvs)
          \<and> map_of kvs ''text'' = Some (JStr t) \<and> t \<noteq> []
          \<and> dict_get (JObj kvs) ''userId'' (JStr ''anonymous'') = Inr uid
          \<and> get_secrets env i st0 = (Inr (JObj skvs), st1)
          \<and> dict_get (JObj skvs) ''GEMINI_KEY'' (JStr []) = Inr key
          \<and> build_item env (save_time env i) uid (uuid4 env i) (JStr t)
                (call_gemini_api env i (JStr t) key) = Inr item
          \<and> put_item_fault env i = None
        \<longrightarrow> process_record env i record st0
              = (Inr Processed, st1\<lparr>table := table_put (table st1) item\<rparr>)
            \<and> item \<in> set (table (snd (process_record env i record st0))))"
proof -
  have push: "push_to_sqs env i s rid emo u = (Inr False, s)" for s rid emo u
    using assms by (simp add: push_to_sqs_def)
  have "process_record env i record st0
              = (Inr Processed, st1\<lparr>table := table_put (table st1) item\<rparr>)
            \<and> item \<in> set (table (snd (process_record env i record st0)))"
    if h: "parse_kinesis_record env record = Inr (JObj kvs)"
      "map_of kvs ''text'' = Some (JStr t)" "t \<noteq> []"
      "dict_get (JObj kvs) ''userId'' (JStr ''anonymous'') = Inr uid"
      "get_secrets env i st0 = (Inr (JObj skvs), st1)"
      "dict_get (JObj skvs) ''GEMINI_KEY'' (JStr []) = Inr key"
      "build_item env (save_time env i) uid (uuid4 env i) (JStr t)
                (call_gemini_api env i (JStr t) key) = Inr item"
      "put_item_fault env i = None"
  proof -
    from process_record_after_save [OF h] push
    have "process_record env i record st0
            = (Inr Processed, st1\<lparr>table := table_put (table st1) item\<rparr>)"
      by auto
    then show ?thesis by (simp add: table_put_def)
  qed
  with push show ?thesis by blast
qed

theorem push_to_sqs_transport_failure_witness:
  "send_message_fault penv_send_fails 0 = Some ClientError \<and> boto_error ClientError
   \<and> push_to_sqs penv_send_fails 0 pstate0 ''uuid-00'' (JStr ''neutral'') (JStr ''u1'')
       = (Inr False, pstate0)
   \<and> process_record penv_send_fails 0 demo_record pstate0
       = (Inr Processed, \<lparr> secrets_cache = demo_secrets, table = [demo_item], sent = [] \<rparr>)"
proof -
  let ?env = "penv_with (Inr ''secrets'') None (Some ClientError)"
  have f: "send_message_fault ?env 0 = Some ClientError" by (simp add: with_fields)
  have b: "boto_error ClientError" by simp
  have p: "parse_kinesis_record ?env demo_record
             = Inr (JObj [(''text'', JStr ''hi''), (''userId'', JStr ''u1'')])"
    by (simp add: with_parse demo_input_def)
  have g: "get_secrets ?env 0 pstate0
             = (Inr (JObj [(''GEMINI_KEY'', JStr ''k'')]), pstate0\<lparr>secrets_cache := demo_secrets\<rparr>)"
    by (simp add: with_secrets demo_secrets_def)
  have n: "put_item_fault ?env 0 = None" by (simp add: with_fields)
  have t: "''hi'' \<noteq> []" by simp
  from push_to_sqs_transport_failure [OF f b, of pstate0 "''uuid-00''" "JStr ''neutral''"
      "JStr ''u1''" demo_record "[(''text'', JStr ''hi''), (''userId'', JStr ''u1'')]" "''hi''"
      "JStr ''u1''" pstate0 "[(''GEMINI_KEY'', JStr ''k'')]"
      "pstate0\<lparr>secrets_cache := demo_secrets\<rparr>" "JStr ''k''" demo_item]
    p demo_input_fields(2) t demo_input_fields(3) g demo_input_fields(5) with_build n
  have "push_to_sqs ?env 0 pstate0 ''uuid-00'' (JStr ''neutral'') (JStr ''u1'') = (Inr False, pstate0)
     \<and> process_record ?env 0 demo_record pstate0
         = (Inr Processed, pstate0\<lparr>secrets_cache := demo_secrets,
              table := table_put (table (pstate0\<lparr>secrets_cache := demo_secrets\<rparr>)) demo_item\<rparr>)"
    by simp
  with f b show ?thesis
    by (simp add: penv_send_fails_def pstate0_def table_put_def)
qed

subsection \<open>The batch result\<close>

lemma handle_records_counts:
  "handle_records env i rs (p, e, st) = (p', e', st')
     \<Longrightarrow> p \<le> p' \<and> e \<le> e' \<and> p' + e' \<le> p + e + length rs"
proof (induction rs arbitrary: i p e st)
  case Nil
  then show ?case by simp
next
  case (Cons r rs)
  obtain res st1 where pr: "process_record env i r st = (res, st1)"
    by (cases "process_record env i r st") blast
  show ?case
  proof (cases res)
    case (Inl ex)
    with Cons.prems pr have "handle_records env (Suc i) rs (p, Suc e, st1) = (p', e', st')"
      by simp
    from Cons.IH [OF this] show ?thesis by simp
  next
    case (Inr oc)
    show ?thesis
    proof (cases oc)
      case Skipped
      with Inr Cons.prems pr have "handle_records env (Suc i) rs (p, e, st1) = (p', e', st')"
        by simp
      from Cons.IH [OF this] show ?thesis by simp
    next
      case Processed
      with Inr Cons.prems pr have "handle_records env (Suc i) rs (Suc p, e, st1) = (p', e', st')"
        by simp
      from Cons.IH [OF this] show ?thesis by simp
    qed
  qed
qed

lemma process_record_secrets_fault:
  assumes "parse_kinesis_record env record = Inr (JObj kvs)"
    and "map_of kvs ''text'' = Some (JStr t)" and "t \<noteq> []"
    and "get_secrets env i st = (Inl e, st1)"
  shows "process_record env i record st = (Inl e, st1)"
  using assms by (simp add: process_record_def)

text \<open>
  C5, as stated, fails: an exception raised while the secrets are read does not leave
  the handler. The read sits inside the loop's \<^verbatim>\<open>try\<close>, so each record that needs
  the secrets is counted as an error and the handler still answers 200; here both
  records of the batch are counted.
\<close>

theorem secrets_failure_counterexample:
  "get_secrets penv_no_secrets 0 pstate0 = (Inl ClientError, pstate0)
   \<and> process_record penv_no_secrets 0 demo_record pstate0 = (Inl ClientError, pstate0)
   \<and> handler penv_no_secrets [demo_record, demo_record] pstate0
       = (\<lparr> statusCode = 200, body = ''processed=00 errors=02'' \<rparr>, pstate0)"
proof -
  let ?env = "penv_with (Inl ClientError) None None"
  have p: "parse_kinesis_record ?env demo_record
             = Inr (JObj [(''text'', JStr ''hi''), (''userId'', JStr ''u1'')])"
    by (simp add: with_parse demo_input_def)
  have t: "''hi'' \<noteq> []" by simp
  have pr: "process_record ?env i demo_record pstate0 = (Inl ClientError, pstate0)" for i
    by (rule process_record_secrets_fault [OF p demo_input_fields(2) t with_secrets(2)])
  have "handler ?env [demo_record, demo_record] pstate0
       = (\<lparr> statusCode = 200, body = ''processed=00 errors=02'' \<rparr>, pstate0)"
    by (simp add: handler_def pr response_body_def)
       (simp add: with_fields demo_dumps_def pad_2_values)
  with pr [of 0] with_secrets(2) [of ClientError None None 0]
  show ?thesis by (simp add: penv_no_secrets_def)
qed

text \<open>
  C5, amended. For every batch, whatever fails inside it, the handler answers with
  status 200 and a body that reports the two counters, whose sum is at most the
  number of records. An exception raised while the secrets are read is caught like
  any other failure of a record: the record is counted as an error and the loop goes
  on with the next one.
\<close>

theorem handler_batch_success:
  "statusCode (fst (handler env records st0)) = 200
   \<and> (\<exists>p er. body (fst (handler env records st0)) = json_dumps env (response_body p er)
          \<and> p + er \<le> length records)
   \<and> (parse_kinesis_record env r = Inr (JObj kvs)
        \<and> map_of kvs ''text'' = Some (JStr t) \<and> t \<noteq> []
        \<and> get_secrets env i st = (Inl e, st1)
      \<longrightarrow> process_record env i r st = (Inl e, st1)
        \<and> handle_records env i (r # rs) (p0, e0, st)
             = handle_records env (Suc i) rs (p0, Suc e0, st1))"
proof -
  obtain p er st' where hr: "handle_records env 0 records (0, 0, st0) = (p, er, st')"
    by (cases "handle_records env 0 records (0, 0, st0)") blast
  from handle_records_counts [OF hr] have "p + er \<le> length records" by simp
  with hr have a: "statusCode (fst (handler env records st0)) = 200
     \<and> (\<exists>p er. body (fst (handler env records st0)) = json_dumps env (response_body p er)
            \<and> p + er \<le> length records)"
    by (auto simp: handler_def)
  have b: "process_record env i r st = (Inl e, st1)
        \<and> handle_records env i (r # rs) (p0, e0, st)
             = handle_records env (Suc i) rs (p0, Suc e0, st1)"
    if h: "parse_kinesis_record env r = Inr (JObj kvs)"
      "map_of kvs ''text'' = Some (JStr t)" "t \<noteq> []"
      "get_secrets env i st = (Inl e, st1)"
  proof -
    note pr = process_record_secrets_fault [OF h]
    then show ?thesis by simp
  qed
  from a b show ?thesis by blast
qed

theorem handler_batch_success_witness:
  "parse_kinesis_record penv_no_secrets demo_record = Inr demo_input
   \<and> get_secrets penv_no_secrets 0 pstate0 = (Inl ClientError, pstate0)
   \<and> statusCode (fst (handler penv_no_secrets [demo_record] pstate0)) = 200
   \<and> process_record penv_no_secrets 0 demo_record pstate0 = (Inl ClientError, pstate0)
   \<and> handle_records penv_no_secrets 0 [demo_record, demo_record] (0, 0, pstate0)
        = handle_records penv_no_secrets 1 [demo_record] (0, 1, pstate0)"
proof -
  have p: "parse_kinesis_record penv_no_secrets demo_record
             = Inr (JObj [(''text'', JStr ''hi''), (''userId'', JStr ''u1'')])"
    by (simp add: penv_no_secrets_def with_parse demo_input_def)
  have t: "''hi'' \<noteq> []" by simp
  have g: "get_secrets penv_no_secrets 0 pstate0 = (Inl ClientError, pstate0)"
    by (simp add: penv_no_secrets_def with_secrets)
  note th = handler_batch_success [where env = penv_no_secrets and records = "[demo_record]"
      and ?st0.0 = pstate0 and r = demo_record
      and kvs = "[(''text'', JStr ''hi''), (''userId'', JStr ''u1'')]" and t = "''hi''"
      and i = 0 and st = pstate0 and e = ClientError and ?st1.0 = pstate0
      and rs = "[demo_record]" and ?p0.0 = 0 and ?e0.0 = 0]
  from th have s: "statusCode (fst (handler penv_no_secrets [demo_record] pstate0)) = 200"
    by (rule conjunct1)
  from th p demo_input_fields(2) t g
  have "process_record penv_no_secrets 0 demo_record pstate0 = (Inl ClientError, pstate0)
        \<and> handle_records penv_no_secrets 0 [demo_record, demo_record] (0, 0, pstate0)
             = handle_records penv_no_secrets (Suc 0) [demo_record] (0, Suc 0, pstate0)"
    by blast
  with s p g show ?thesis by (simp add: demo_input_def)
qed

section \<open>Properties of the worker\<close>

subsection \<open>What each step leaves alone\<close>

lemma logs_fields [simp]:
  "tick (logs ev st) = tick st"
  "processed_count (logs ev st) = processed_count st"
  "error_count (logs ev st) = error_count st"
  "blobs (logs ev st) = blobs st"
  "w_table (logs ev st) = w_table st"
  "delete_requests (logs ev st) = delete_requests st"
  "logged (logs ev st) = logged st @ [ev]"
  by (simp_all add: logs_def)

lemma shutdown_requested_logs [simp]:
  "shutdown_requested env (logs ev st) = shutdown_requested env st"
  by (simp add: shutdown_requested_def split: option.splits)

lemma upload_frame:
  assumes "upload_to_s3 env st art rid uid = (r, st')"
  shows "tick st' = tick st \<and> processed_count st' = processed_count st
     \<and> error_count st' = error_count st \<and> w_table st' = w_table st
     \<and> delete_requests st' = delete_requests st"
  using assms by (auto simp: upload_to_s3_def Let_def split: option.splits if_splits)

lemma update_frame:
  assumes "update_dynamodb env st uid ts rid url = (r, st')"
  shows "tick st' = tick st \<and> processed_count st' = processed_count st
     \<and> error_count st' = error_count st \<and> blobs st' = blobs st
     \<and> delete_requests st' = delete_requests st"
  using assms
  by (auto simp: update_dynamodb_def split: option.splits if_splits list.splits)

text \<open>The body of \<^verbatim>\<open>process_message\<close> once the fields of the job are read.\<close>

lemma process_body_read:
  assumes "w_json_loads env (Body m) = Some job"
    and "dict_get job ''record_id'' JNull = Inr rid"
    and "dict_get job ''emotion'' (JStr ''neutral'') = Inr emo"
    and "dict_get job ''user_id'' (JStr ''anonymous'') = Inr uid"
    and "dict_get job ''timestamp'' JNull = Inr ts"
    and "truthy rid"
  shows "process_body env m st =
     (case generate env (tick st) emo rid of
        Inl e \<Rightarrow> (Inl e, logs (Processing rid emo) st)
      | Inr art \<Rightarrow>
          (case upload_to_s3 env (logs (Processing rid emo) st) art rid uid of
             (Inl e, st1) \<Rightarrow> (Inl e, st1)
           | (Inr url, st1) \<Rightarrow>
               (case update_dynamodb env st1 uid ts rid url of
                  (Some e, st2) \<Rightarrow> (Inl e, st2)
                | (None, st2) \<Rightarrow> (Inr True, logs (ProcessedOk rid) st2))))"
  using assms by (simp add: process_body_def Let_def)

text \<open>The fields a decoded dict gives to \<^verbatim>\<open>process_message\<close>.\<close>

lemma dict_get_obj: "\<exists>v. dict_get (JObj kvs) k d = Inr v"
  by simp

lemma dict_get_Inr: "dict_get job k d = Inr v \<Longrightarrow> \<exists>kvs. job = JObj kvs"
  by (cases job) simp_all

lemma process_body_frame:
  assumes "process_body env m st = (r, st')"
  shows "tick st' = tick st \<and> processed_count st' = processed_count st
     \<and> error_count st' = error_count st \<and> delete_requests st' = delete_requests st"
proof (cases "w_json_loads env (Body m)")
  case None
  with assms show ?thesis by (simp add: process_body_def)
next
  case (Some job)
  show ?thesis
  proof (cases job)
    case (JObj kvs)
    obtain rid emo uid ts where g:
      "dict_get job ''record_id'' JNull = Inr rid"
      "dict_get job ''emotion'' (JStr ''neutral'') = Inr emo"
      "dict_get job ''user_id'' (JStr ''anonymous'') = Inr uid"
      "dict_get job ''timestamp'' JNull = Inr ts"
      using JObj by simp
    show ?thesis
    proof (cases "truthy rid")
      case False
      with assms Some g show ?thesis by (auto simp: process_body_def)
    next
      case True
      note pb = process_body_read [OF Some g True, of st]
      show ?thesis
      proof (cases "generate env (tick st) emo rid")
        case (Inl e)
        with pb assms show ?thesis by auto
      next
        case (Inr art)
        obtain r1 st1 where up: "upload_to_s3 env (logs (Processing rid emo) st) art rid uid = (r1, st1)"
          by (cases "upload_to_s3 env (logs (Processing rid emo) st) art rid uid") blast
        note f1 = upload_frame [OF up]
        show ?thesis
        proof (cases r1)
          case (Inl e)
          with pb assms Inr up f1 show ?thesis by auto
        next
          case url: (Inr url)
          obtain r2 st2 where ud: "update_dynamodb env st1 uid ts rid url = (r2, st2)"
            by (cases "update_dynamodb env st1 uid ts rid url") blast
          note f2 = update_frame [OF ud]
          from pb assms Inr up url ud f1 f2 show ?thesis
            by (cases r2) auto
        qed
      qed
    qed
  qed (use assms Some in \<open>auto simp: process_body_def\<close>)
qed

lemma process_message_frame:
  assumes "process_message env m st = (ok, st')"
  shows "tick st' = tick st \<and> processed_count st' = processed_count st
     \<and> error_count st' = error_count st \<and> delete_requests st' = delete_requests st"
proof -
  obtain r st1 where pb: "process_body env m st = (r, st1)"
    by (cases "process_body env m st") blast
  from process_body_frame [OF pb] assms pb show ?thesis
    by (cases r) (auto simp: process_message_def)
qed

text \<open>What one pass of the loop body does to the counters and to the deletions.\<close>

lemma run_job_effect:
  assumes "process_message env m st = (ok, st1)"
  shows "tick (snd (run_job env m st)) = Suc (tick st)
     \<and> delete_requests (snd (run_job env m st))
           = (if ok then delete_requests st @ [ReceiptHandle m] else delete_requests st)
     \<and> error_count (snd (run_job env m st))
           = (if ok then error_count st else Suc (error_count st))
     \<and> processed_count (snd (run_job env m st))
           = (if ok \<and> fst (run_job env m st) = None then Suc (processed_count st)
              else processed_count st)
     \<and> (\<not> ok \<longrightarrow> fst (run_job env m st) = None)"
proof (cases ok)
  case True
  with assms process_message_frame [OF assms] show ?thesis
    by (cases "delete_fault env (tick st)")
       (auto simp: run_job_def delete_sqs_message_def Let_def)
next
  case False
  with assms process_message_frame [OF assms] show ?thesis
    by (simp add: run_job_def)
qed

subsection \<open>When a job succeeds\<close>

lemma process_message_TrueD:
  assumes "fst (process_message env m st)"
  shows "\<exists>job rid emo uid ts art url st1 st2.
       w_json_loads env (Body m) = Some job
     \<and> dict_get job ''record_id'' JNull = Inr rid
     \<and> dict_get job ''emotion'' (JStr ''neutral'') = Inr emo
     \<and> dict_get job ''user_id'' (JStr ''anonymous'') = Inr uid
     \<and> dict_get job ''timestamp'' JNull = Inr ts
     \<and> truthy rid
     \<and> generate env (tick st) emo rid = Inr art
     \<and> upload_to_s3 env (logs (Processing rid emo) st) art rid uid = (Inr url, st1)
     \<and> update_dynamodb env st1 uid ts rid url = (None, st2)
     \<and> process_message env m st = (True, logs (ProcessedOk rid) st2)"
proof -
  obtain r st' where pb: "process_body env m st = (r, st')"
    by (cases "process_body env m st") blast
  with assms have r: "r = Inr True"
    by (cases r) (auto simp: process_message_def)
  from pb r obtain job where j: "w_json_loads env (Body m) = Some job"
    by (cases "w_json_loads env (Body m)") (auto simp: process_body_def)
  from pb r j obtain kvs where k: "job = JObj kvs"
    by (cases job) (auto simp: process_body_def)
  obtain rid emo uid ts where g:
    "dict_get job ''record_id'' JNull = Inr rid"
    "dict_get job ''emotion'' (JStr ''neutral'') = Inr emo"
    "dict_get job ''user_id'' (JStr ''anonymous'') = Inr uid"
    "dict_get job ''timestamp'' JNull = Inr ts"
    using k by simp
  from pb r j g have t: "truthy rid"
    by (auto simp: process_body_def split: if_splits)
  note rd = process_body_read [OF j g t, of st]
  from rd pb r obtain art where a: "generate env (tick st) emo rid = Inr art"
    by (cases "generate env (tick st) emo rid") auto
  obtain r1 st1 where up: "upload_to_s3 env (logs (Processing rid emo) st) art rid uid = (r1, st1)"
    by (cases "upload_to_s3 env (logs (Processing rid emo) st) art rid uid") blast
  from rd pb r a up obtain url where u: "r1 = Inr url"
    by (cases r1) auto
  obtain r2 st2 where ud: "update_dynamodb env st1 uid ts rid url = (r2, st2)"
    by (cases "update_dynamodb env st1 uid ts rid url") blast
  from rd pb r a up u ud have n: "r2 = None"
    by (cases r2) auto
  from rd pb a up u ud n have "process_message env m st = (True, logs (ProcessedOk rid) st2)"
    by (simp add: process_message_def)
  with j g t a up u ud n show ?thesis by blast
qed

lemma process_message_TrueI:
  assumes "w_json_loads env (Body m) = Some job"
    and "dict_get job ''record_id'' JNull = Inr rid"
    and "dict_get job ''emotion'' (JStr ''neutral'') = Inr emo"
    and "dict_get job ''user_id'' (JStr ''anonymous'') = Inr uid"
    and "dict_get job ''timestamp'' JNull = Inr ts"
    and "truthy rid"
    and "generate env (tick st) emo rid = Inr art"
    and "upload_to_s3 env (logs (Processing rid emo) st) art rid uid = (Inr url, st1)"
    and "update_dynamodb env st1 uid ts rid url = (None, st2)"
  shows "process_message env m st = (True, logs (ProcessedOk rid) st2)"
  using process_body_read [OF assms(1-6), of st] assms(7-9)
  by (simp add: process_message_def)

lemma process_body_raises:
  assumes "process_body env m st = (Inl e, st')"
  shows "process_message env m st = (False, logs (ProcessFailed e) st')"
  using assms by (simp add: process_message_def)

text \<open>A fault of \<^verbatim>\<open>put_object\<close> ends the job with an exception.\<close>

lemma upload_fault:
  assumes "put_object_fault env (tick st) = Some e"
  shows "\<exists>st'. upload_to_s3 env st art rid uid = (Inl e, st')"
  using assms by (simp add: upload_to_s3_def Let_def)

lemma upload_ok:
  assumes "put_object_fault env (tick st) = None"
  shows "\<exists>st'. upload_to_s3 env st art rid uid = (Inr (object_url env (object_key env (tick st) rid uid)), st')
     \<and> (\<exists>obj. blobs st' (object_key env (tick st) rid uid) = Some obj \<and> ObjBody obj = art)
     \<and> w_table st' = w_table st \<and> tick st' = tick st"
  using assms by (simp add: upload_to_s3_def Let_def)

subsection \<open>The template mapping\<close>

lemma lookup_template:
  "(case map_of (EMOTION_ASCII_MAP env)
           (case map_of emotion_mapping l of None \<Rightarrow> l | Some m \<Rightarrow> m) of
      None \<Rightarrow> pictures env Neutral | Some a \<Rightarrow> a) = pictures env (template_of l)"
  by (simp add: EMOTION_ASCII_MAP_def emotion_mapping_def template_of_def)

lemma neutral_entry: "map_of (EMOTION_ASCII_MAP env) ''neutral'' = Some (pictures env Neutral)"
  by (simp add: EMOTION_ASCII_MAP_def)

text \<open>
  C6. For every label and record identifier that are strings, \<open>generate\<close> returns a
  text and never an exception, and the text is a function of its arguments and of
  the timestamp alone: the drawing of \<open>template_of\<close> at the stripped, lower-cased
  label, followed by the footer with the first eight characters of the identifier.
  Every alias of the source's table has the template of its canonical emotion, which
  is an entry of the drawings; every label that is neither an alias nor an entry has
  the neutral template.
\<close>

theorem generate_total:
  "generate env t (JStr emotion) (JStr record_id)
     = Inr (pictures env (template_of (strip (lower emotion)))
            @ footer env (take 8 record_id) (strftime_utc (footer_clock env t)))
   \<and> (\<forall>(alias, canonical) \<in> set emotion_mapping.
          template_of alias = template_of canonical
        \<and> map_of (EMOTION_ASCII_MAP env) canonical = Some (pictures env (template_of canonical)))
   \<and> (strip (lower emotion) \<notin> fst ` set emotion_mapping \<union> fst ` set (EMOTION_ASCII_MAP env)
        \<longrightarrow> template_of (strip (lower emotion)) = Neutral)"
proof -
  have "generate env t (JStr emotion) (JStr record_id)
     = Inr (pictures env (template_of (strip (lower emotion)))
            @ footer env (take 8 record_id) (strftime_utc (footer_clock env t)))"
    by (simp add: generate_def Let_def neutral_entry lookup_template fstr_def)
  moreover have "\<forall>(alias, canonical) \<in> set emotion_mapping.
          template_of alias = template_of canonical
        \<and> map_of (EMOTION_ASCII_MAP env) canonical = Some (pictures env (template_of canonical))"
    by (simp add: emotion_mapping_def EMOTION_ASCII_MAP_def template_of_def)
  moreover have "strip (lower emotion) \<notin> fst ` set emotion_mapping \<union> fst ` set (EMOTION_ASCII_MAP env)
        \<longrightarrow> template_of (strip (lower emotion)) = Neutral"
    by (simp add: emotion_mapping_def EMOTION_ASCII_MAP_def template_of_def)
  ultimately show ?thesis by blast
qed

lemma demo_labels:
  "strip (lower '' Joyful '') = ''joyful''"
  "strip (lower ''bored'') = ''bored''"
  by code_simp+

theorem generate_total_witness:
  "(''joyful'', ''happy'') \<in> set emotion_mapping
   \<and> template_of ''joyful'' = template_of ''happy''
   \<and> strip (lower ''bored'') \<notin> fst ` set emotion_mapping \<union> fst ` set (EMOTION_ASCII_MAP demo_wenv)
   \<and> generate demo_wenv 0 (JStr ''bored'') (JStr ''uuid-00-and-more'')
       = Inr ''<neutral> ID: uuid-00- Generated: 2026-01-02 03:04:05 UTC ''"
proof -
  note g = generate_total [of demo_wenv 0 "''bored''" "''uuid-00-and-more''"]
  have m: "(''joyful'', ''happy'') \<in> set emotion_mapping"
    by (simp add: emotion_mapping_def)
  with g have a: "template_of ''joyful'' = template_of ''happy''"
    by blast
  have n: "strip (lower ''bored'') \<notin> fst ` set emotion_mapping \<union> fst ` set (EMOTION_ASCII_MAP demo_wenv)"
    by (simp add: demo_labels emotion_mapping_def EMOTION_ASCII_MAP_def)
  with g have "template_of (strip (lower ''bored'')) = Neutral"
    by blast
  with g have "generate demo_wenv 0 (JStr ''bored'') (JStr ''uuid-00-and-more'')
       = Inr (pictures demo_wenv Neutral
              @ footer demo_wenv ''uuid-00-'' (strftime_utc (footer_clock demo_wenv 0)))"
    by simp
  then have "generate demo_wenv 0 (JStr ''bored'') (JStr ''uuid-00-and-more'')
       = Inr ''<neutral> ID: uuid-00- Generated: 2026-01-02 03:04:05 UTC ''"
    by (simp add: demo_wenv_def wenv_with_def footer_def strftime_utc_def demo_now_def
        pad_2 pad_4 digit_def)
  with m a n show ?thesis by blast
qed

subsection \<open>Evaluation of the worker's small environment\<close>

lemma generate_str:
  "generate env t (JStr e) (JStr r)
     = Inr (pictures env (template_of (strip (lower e)))
            @ footer env (take 8 r) (strftime_utc (footer_clock env t)))"
  by (simp add: generate_def Let_def neutral_entry lookup_template fstr_def)

lemma wwith_fields:
  "IS_LOCAL (wenv_with b p q s)"
  "LOCALSTACK_ENDPOINT (wenv_with b p q s) = ''http://localhost:4566''"
  "S3_BUCKET_NAME (wenv_with b p q s) = ''bucket''"
  "pictures (wenv_with b p q s) = demo_pictures"
  "footer_head (wenv_with b p q s) = '' ID: ''"
  "footer_mid (wenv_with b p q s) = '' Generated: ''"
  "footer_tail (wenv_with b p q s) = '' ''"
  "w_json_loads (wenv_with b p q s) = demo_wloads"
  "receive_message (wenv_with b p q s) t = (if t = 0 then Inr b else Inr [])"
  "delete_fault (wenv_with b p q s) t = None"
  "put_object_fault (wenv_with b p q s) t = p"
  "query_fault (wenv_with b p q s) t = q"
  "update_fault (wenv_with b p q s) t = None"
  "footer_clock (wenv_with b p q s) t = demo_now"
  "key_clock (wenv_with b p q s) t = demo_now"
  "meta_clock (wenv_with b p q s) t = demo_now"
  "update_clock (wenv_with b p q s) t = demo_now"
  "signal_at (wenv_with b p q s) = s"
  by (simp_all add: wenv_with_def)

lemma demo_now_prints:
  "strftime_path demo_now = ''2026/01/02''"
  "strftime_utc demo_now = ''2026-01-02 03:04:05 UTC''"
  "isoformat demo_now = ''2026-01-02T03:04:05+00:00''"
  by (simp_all add: strftime_path_def strftime_utc_def isoformat_def demo_now_def
      pad_2 pad_4 digit_def)

lemma demo_job_reads:
  "w_json_loads (wenv_with b p q s) (Body msg_ok) = Some (demo_job ''uuid-00'')"
  "w_json_loads (wenv_with b p q s) (Body msg_lost) = Some (demo_job ''uuid-lost-record'')"
  "w_json_loads (wenv_with b p q s) (Body msg_noid) = Some demo_job_noid"
  "dict_get (demo_job r) ''record_id'' JNull = Inr (JStr r)"
  "dict_get (demo_job r) ''emotion'' (JStr ''neutral'') = Inr (JStr ''neutral'')"
  "dict_get (demo_job r) ''user_id'' (JStr ''anonymous'') = Inr (JStr ''u1'')"
  "dict_get (demo_job r) ''timestamp'' JNull = Inr (JStr ''2026-01-01T00:00:00.000200+00:00'')"
  by (simp_all add: wwith_fields demo_wloads_def msg_ok_def msg_lost_def msg_noid_def
      demo_job_def)

lemma demo_generate:
  "generate (wenv_with b p q s) t (JStr ''neutral'') (JStr ''uuid-00'')
     = Inr ''<neutral> ID: uuid-00 Generated: 2026-01-02 03:04:05 UTC ''"
  "generate (wenv_with b p q s) t (JStr ''neutral'') (JStr ''uuid-lost-record'')
     = Inr ''<neutral> ID: uuid-los Generated: 2026-01-02 03:04:05 UTC ''"
proof -
  have l: "strip (lower ''neutral'') = ''neutral''" by code_simp
  show "generate (wenv_with b p q s) t (JStr ''neutral'') (JStr ''uuid-00'')
     = Inr ''<neutral> ID: uuid-00 Generated: 2026-01-02 03:04:05 UTC ''"
    by (simp add: generate_str l template_of_def wwith_fields footer_def demo_now_prints)
  show "generate (wenv_with b p q s) t (JStr ''neutral'') (JStr ''uuid-lost-record'')
     = Inr ''<neutral> ID: uuid-los Generated: 2026-01-02 03:04:05 UTC ''"
    by (simp add: generate_str l template_of_def wwith_fields footer_def demo_now_prints)
qed

lemma demo_object_key:
  "object_key (wenv_with b p q s) t (JStr ''uuid-00'') (JStr ''u1'')
     = ''ascii-art/u1/2026/01/02/uuid-00.txt''"
  "object_key (wenv_with b p q s) t (JStr ''uuid-lost-record'') (JStr ''u1'')
     = ''ascii-art/u1/2026/01/02/uuid-lost-record.txt''"
  by (simp_all add: object_key_def fstr_def wwith_fields demo_now_prints)

subsection \<open>Messages without a record identifier\<close>

text \<open>
  C10. When the decoded body of a message has no \<open>record_id\<close> (the key is absent or
  its value is empty, or the body is not a dict at all), \<open>process_message\<close> returns
  \<open>False\<close>; the loop counts an error, makes no deletion request for the message,
  changes neither the bucket nor the table, and goes on with the next message. This
  holds in every state, so it holds again at every redelivery.
\<close>

theorem missing_record_id_not_deleted:
  assumes "w_json_loads env (Body m) = Some job"
    and "\<forall>kvs. job = JObj kvs \<longrightarrow>
           (case map_of kvs ''record_id'' of None \<Rightarrow> True | Some v \<Rightarrow> \<not> truthy v)"
  shows "fst (process_message env m st) = False
     \<and> fst (run_job env m st) = None
     \<and> error_count (snd (run_job env m st)) = Suc (error_count st)
     \<and> processed_count (snd (run_job env m st)) = processed_count st
     \<and> delete_requests (snd (run_job env m st)) = delete_requests st
     \<and> blobs (snd (run_job env m st)) = blobs st
     \<and> w_table (snd (run_job env m st)) = w_table st
     \<and> (\<not> shutdown_requested env st \<longrightarrow>
           run_batch env (m # ms) st = run_batch env ms (snd (run_job env m st)))"
proof -
  have pm: "\<exists>ev. process_message env m st = (False, logs ev st)"
  proof (cases job)
    case (JObj kvs)
    with assms(2) have "\<not> truthy (case map_of kvs ''record_id'' of None \<Rightarrow> JNull | Some v \<Rightarrow> v)"
      by (auto split: option.splits)
    with assms(1) JObj show ?thesis
      by (auto simp: process_message_def process_body_def)
  qed (use assms(1) in \<open>auto simp: process_message_def process_body_def\<close>)
  then obtain ev where p: "process_message env m st = (False, logs ev st)" by blast
  then have rj: "run_job env m st
      = (None, (logs ev st)\<lparr>error_count := Suc (error_count st), tick := Suc (tick st)\<rparr>)"
    by (simp add: run_job_def)
  then show ?thesis using p by simp
qed

theorem missing_record_id_not_deleted_witness:
  "w_json_loads demo_wenv (Body msg_noid) = Some demo_job_noid
   \<and> \<not> shutdown_requested demo_wenv wstate0
   \<and> fst (process_message demo_wenv msg_noid wstate0) = False
   \<and> error_count (snd (run_job demo_wenv msg_noid wstate0)) = 1
   \<and> delete_requests (snd (run_job demo_wenv msg_noid wstate0)) = []
   \<and> run_batch demo_wenv [msg_noid, msg_ok] wstate0
       = run_batch demo_wenv [msg_ok] (snd (run_job demo_wenv msg_noid wstate0))"
proof -
  have j: "w_json_loads demo_wenv (Body msg_noid) = Some demo_job_noid"
    by (simp add: demo_wenv_def demo_job_reads)
  have k: "\<forall>kvs. demo_job_noid = JObj kvs \<longrightarrow>
           (case map_of kvs ''record_id'' of None \<Rightarrow> True | Some v \<Rightarrow> \<not> truthy v)"
    by (auto simp: demo_job_noid_def)
  have s: "\<not> shutdown_requested demo_wenv wstate0"
    by (simp add: shutdown_requested_def demo_wenv_def wwith_fields)
  from missing_record_id_not_deleted [OF j k, of wstate0 "[msg_ok]"] j s
  show ?thesis by (simp add: wstate0_def)
qed

subsection \<open>Jobs whose record is gone\<close>

lemma update_not_found:
  assumes "query_fault env (tick st) = None"
    and "query_items (w_table st) uid rid = []"
  shows "update_dynamodb env st uid ts rid url = (None, logs (RecordNotFound rid) st)"
  using assms by (simp add: update_dynamodb_def)

text \<open>
  C8. When the query for \<open>(user_id, record_id)\<close> finds no item, \<open>update_dynamodb\<close>
  raises nothing: it logs a warning and leaves the table as it is. For a job that
  reached the lookup (its fields were read, the drawing was generated and uploaded),
  \<open>process_message\<close> then returns \<open>True\<close>, and the loop makes the deletion request
  for the job.
\<close>

theorem lost_record_job_deleted:
  assumes "w_json_loads env (Body m) = Some job"
    and "dict_get job ''record_id'' JNull = Inr rid"
    and "dict_get job ''emotion'' (JStr ''neutral'') = Inr emo"
    and "dict_get job ''user_id'' (JStr ''anonymous'') = Inr uid"
    and "dict_get job ''timestamp'' JNull = Inr ts"
    and "truthy rid"
    and "generate env (tick st) emo rid = Inr art"
    and "put_object_fault env (tick st) = None"
    and "query_fault env (tick st) = None"
    and "query_items (w_table st) uid rid = []"
  shows "\<exists>url st1. upload_to_s3 env (logs (Processing rid emo) st) art rid uid = (Inr url, st1)
     \<and> update_dynamodb env st1 uid ts rid url = (None, logs (RecordNotFound rid) st1)
     \<and> process_message env m st = (True, logs (ProcessedOk rid) (logs (RecordNotFound rid) st1))
     \<and> w_table (snd (process_message env m st)) = w_table st
     \<and> RecordNotFound rid \<in> set (logged (snd (process_message env m st)))
     \<and> delete_requests (snd (run_job env m st)) = delete_requests st @ [ReceiptHandle m]"
proof -
  let ?st0 = "logs (Processing rid emo) st"
  have "put_object_fault env (tick ?st0) = None" using assms(8) by simp
  from upload_ok [OF this, of art rid uid]
  obtain st1 where up: "upload_to_s3 env ?st0 art rid uid
        = (Inr (object_url env (object_key env (tick ?st0) rid uid)), st1)"
    and t1: "w_table st1 = w_table ?st0" "tick st1 = tick ?st0"
    by blast
  let ?url = "object_url env (object_key env (tick ?st0) rid uid)"
  have ud: "update_dynamodb env st1 uid ts rid ?url = (None, logs (RecordNotFound rid) st1)"
    using assms(9,10) t1 by (simp add: update_not_found)
  have pm: "process_message env m st
      = (True, logs (ProcessedOk rid) (logs (RecordNotFound rid) st1))"
    by (rule process_message_TrueI [OF assms(1-7) up ud])
  from run_job_effect [OF pm]
  have "delete_requests (snd (run_job env m st)) = delete_requests st @ [ReceiptHandle m]"
    by simp
  with up ud pm t1 show ?thesis by simp
qed

theorem lost_record_job_deleted_witness:
  "w_json_loads demo_wenv (Body msg_lost) = Some (demo_job ''uuid-lost-record'')
   \<and> query_items (w_table wstate0) (JStr ''u1'') (JStr ''uuid-lost-record'') = []
   \<and> fst (process_message demo_wenv msg_lost wstate0)
   \<and> w_table (snd (process_message demo_wenv msg_lost wstate0)) = [stored_item]
   \<and> RecordNotFound (JStr ''uuid-lost-record'')
        \<in> set (logged (snd (process_message demo_wenv msg_lost wstate0)))
   \<and> delete_requests (snd (run_job demo_wenv msg_lost wstate0)) = [''rh-lost'']"
proof -
  have q: "query_items (w_table wstate0) (JStr ''u1'') (JStr ''uuid-lost-record'') = []"
    by (simp add: query_items_def wstate0_def stored_item_def)
  have t: "truthy (JStr ''uuid-lost-record'')" by simp
  have g: "generate demo_wenv (tick wstate0) (JStr ''neutral'') (JStr ''uuid-lost-record'')
     = Inr ''<neutral> ID: uuid-los Generated: 2026-01-02 03:04:05 UTC ''"
    by (simp add: demo_wenv_def demo_generate)
  have p: "put_object_fault demo_wenv (tick wstate0) = None"
    and f: "query_fault demo_wenv (tick wstate0) = None"
    by (simp_all add: demo_wenv_def wwith_fields)
  have j: "w_json_loads demo_wenv (Body msg_lost) = Some (demo_job ''uuid-lost-record'')"
    by (simp add: demo_wenv_def demo_job_reads)
  from lost_record_job_deleted [OF j demo_job_reads(4-7) t g p f q]
  have "fst (process_message demo_wenv msg_lost wstate0)
   \<and> w_table (snd (process_message demo_wenv msg_lost wstate0)) = w_table wstate0
   \<and> RecordNotFound (JStr ''uuid-lost-record'')
        \<in> set (logged (snd (process_message demo_wenv msg_lost wstate0)))
   \<and> delete_requests (snd (run_job demo_wenv msg_lost wstate0))
        = delete_requests wstate0 @ [ReceiptHandle msg_lost]"
    by auto
  with j q show ?thesis by (simp add: wstate0_def msg_lost_def)
qed

subsection \<open>The key of the artifact\<close>

lemma demo_process_ok:
  "fst (process_message demo_wenv msg_ok wstate0)"
  "blobs (snd (process_message demo_wenv msg_ok wstate0)) ''ascii-art/u1/2026/01/02/uuid-00.txt''
     \<noteq> None"
  "blobs (snd (process_message demo_wenv msg_ok wstate0)) ''artifacts/u1/2026/01/02/uuid-00.txt''
     = None"
proof -
  let ?st0 = "logs (Processing (JStr ''uuid-00'') (JStr ''neutral'')) wstate0"
  let ?art = "''<neutral> ID: uuid-00 Generated: 2026-01-02 03:04:05 UTC ''"
  obtain url st1 where up: "upload_to_s3 demo_wenv ?st0 ?art (JStr ''uuid-00'') (JStr ''u1'')
      = (Inr url, st1)"
    and b1: "blobs st1 = [''ascii-art/u1/2026/01/02/uuid-00.txt'' \<mapsto>
        \<lparr> ObjBody = ?art, ContentType = ''text/plain; charset=utf-8'',
          Metadata = [(''record_id'', JStr ''uuid-00''), (''user_id'', JStr ''u1''),
                      (''generated_at'', JStr ''2026-01-02T03:04:05+00:00'')] \<rparr>]"
    by (simp add: upload_to_s3_def Let_def demo_wenv_def wwith_fields demo_object_key
        demo_now_prints wstate0_def)
  obtain r2 st2 where ud: "update_dynamodb demo_wenv st1 (JStr ''u1'')
      (JStr ''2026-01-01T00:00:00.000200+00:00'') (JStr ''uuid-00'') url = (r2, st2)"
    by (cases "update_dynamodb demo_wenv st1 (JStr ''u1'')
      (JStr ''2026-01-01T00:00:00.000200+00:00'') (JStr ''uuid-00'') url") blast
  have t1: "w_table st1 = [stored_item]"
    using upload_frame [OF up] by (simp add: wstate0_def)
  have n: "r2 = None"
    using ud t1
    by (auto simp: update_dynamodb_def query_items_def stored_item_def demo_wenv_def
        wwith_fields split: option.splits list.splits if_splits)
  have j: "w_json_loads demo_wenv (Body msg_ok) = Some (demo_job ''uuid-00'')"
    and g: "generate demo_wenv (tick wstate0) (JStr ''neutral'') (JStr ''uuid-00'') = Inr ?art"
    by (simp_all add: demo_wenv_def demo_job_reads demo_generate)
  have t: "truthy (JStr ''uuid-00'')" by simp
  have pm: "process_message demo_wenv msg_ok wstate0
      = (True, logs (ProcessedOk (JStr ''uuid-00'')) st2)"
    by (rule process_message_TrueI [OF j demo_job_reads(4-7) t g up ud [unfolded n]])
  have b2: "blobs st2 = blobs st1" using update_frame [OF ud] by simp
  show "fst (process_message demo_wenv msg_ok wstate0)" using pm by simp
  show "blobs (snd (process_message demo_wenv msg_ok wstate0))
      ''ascii-art/u1/2026/01/02/uuid-00.txt'' \<noteq> None"
    using pm b1 b2 by simp
  show "blobs (snd (process_message demo_wenv msg_ok wstate0))
      ''artifacts/u1/2026/01/02/uuid-00.txt'' = None"
    using pm b1 b2 by simp
qed

text \<open>
  C9, as stated, fails: the key does not start with \<open>artifacts/\<close>. For the job of
  user \<open>u1\<close> with record \<open>uuid-00\<close>, processed on 2026-01-02, nothing is stored at
  \<open>artifacts/u1/2026/01/02/uuid-00.txt\<close>; the object is at
  \<open>ascii-art/u1/2026/01/02/uuid-00.txt\<close>.
\<close>

theorem artifact_key_counterexample:
  "fst (process_message demo_wenv msg_ok wstate0)
   \<and> blobs (snd (process_message demo_wenv msg_ok wstate0))
        ''artifacts/u1/2026/01/02/uuid-00.txt'' = None
   \<and> blobs (snd (process_message demo_wenv msg_ok wstate0))
        ''ascii-art/u1/2026/01/02/uuid-00.txt'' \<noteq> None"
  using demo_process_ok by simp

text \<open>
  C9, amended. For every job that \<open>process_message\<close> reports as done, whose user
  and record identifiers are the strings \<open>uid\<close> and \<open>rid\<close>, the bucket holds the
  generated drawing at the key \<open>ascii-art/uid/yyyy/mm/dd/rid.txt\<close>, where the date is
  the day of the upload.
\<close>

theorem artifact_key:
  assumes "w_json_loads env (Body m) = Some job"
    and "dict_get job ''record_id'' JNull = Inr (JStr rid)"
    and "dict_get job ''user_id'' (JStr ''anonymous'') = Inr (JStr uid)"
    and "dict_get job ''emotion'' (JStr ''neutral'') = Inr emo"
    and "fst (process_message env m st)"
  shows "\<exists>obj. blobs (snd (process_message env m st))
            (''ascii-art/'' @ uid @ ''/'' @ pad 4 (year (key_clock env (tick st))) @ ''/'' @
             pad 2 (month (key_clock env (tick st))) @ ''/'' @
             pad 2 (day (key_clock env (tick st))) @ ''/'' @ rid @ ''.txt'') = Some obj
         \<and> generate env (tick st) emo (JStr rid) = Inr (ObjBody obj)"
proof -
  from process_message_TrueD [OF assms(5)] assms(1-4)
  obtain ts art url st1 st2 where
    g: "generate env (tick st) emo (JStr rid) = Inr art"
    and up: "upload_to_s3 env (logs (Processing (JStr rid) emo) st) art (JStr rid) (JStr uid)
              = (Inr url, st1)"
    and ud: "update_dynamodb env st1 (JStr uid) ts (JStr rid) url = (None, st2)"
    and pm: "process_message env m st = (True, logs (ProcessedOk (JStr rid)) st2)"
    by auto
  from up have "\<exists>obj. blobs st1 (object_key env (tick st) (JStr rid) (JStr uid)) = Some obj
      \<and> ObjBody obj = art"
    by (auto simp: upload_to_s3_def Let_def split: option.splits)
  moreover have "blobs st2 = blobs st1" using update_frame [OF ud] by simp
  moreover have "object_key env (tick st) (JStr rid) (JStr uid)
      = ''ascii-art/'' @ uid @ ''/'' @ pad 4 (year (key_clock env (tick st))) @ ''/'' @
             pad 2 (month (key_clock env (tick st))) @ ''/'' @
             pad 2 (day (key_clock env (tick st))) @ ''/'' @ rid @ ''.txt''"
    by (simp add: object_key_def fstr_def strftime_path_def)
  ultimately show ?thesis using pm g by auto
qed

theorem artifact_key_witness:
  "w_json_loads demo_wenv (Body msg_ok) = Some (demo_job ''uuid-00'')
   \<and> fst (process_message demo_wenv msg_ok wstate0)
   \<and> (\<exists>obj. blobs (snd (process_message demo_wenv msg_ok wstate0))
               ''ascii-art/u1/2026/01/02/uuid-00.txt'' = Some obj
          \<and> ObjBody obj = ''<neutral> ID: uuid-00 Generated: 2026-01-02 03:04:05 UTC '')"
proof -
  have j: "w_json_loads demo_wenv (Body msg_ok) = Some (demo_job ''uuid-00'')"
    by (simp add: demo_wenv_def demo_job_reads)
  have k: "key_clock demo_wenv (tick wstate0) = demo_now"
    by (simp add: demo_wenv_def wwith_fields)
  have d: "pad 4 (year demo_now) = ''2026''" "pad 2 (month demo_now) = ''01''"
    "pad 2 (day demo_now) = ''02''"
    by (simp_all add: demo_now_def pad_2 pad_4 digit_def)
  have g: "generate demo_wenv (tick wstate0) (JStr ''neutral'') (JStr ''uuid-00'')
     = Inr ''<neutral> ID: uuid-00 Generated: 2026-01-02 03:04:05 UTC ''"
    by (simp add: demo_wenv_def demo_generate)
  from artifact_key [OF j demo_job_reads(4) demo_job_reads(6) demo_job_reads(5)
      demo_process_ok(1)]
  have "\<exists>obj. blobs (snd (process_message demo_wenv msg_ok wstate0))
               ''ascii-art/u1/2026/01/02/uuid-00.txt'' = Some obj
          \<and> ObjBody obj = ''<neutral> ID: uuid-00 Generated: 2026-01-02 03:04:05 UTC ''"
    by (auto simp: k d g)
  with j demo_process_ok(1) show ?thesis by blast
qed

subsection \<open>Acknowledging a job\<close>

lemma run_job_ok:
  assumes "process_message env m st = (True, st1)"
    and "delete_fault env (tick st) = None \<or> (\<exists>e. delete_fault env (tick st) = Some e \<and> boto_error e)"
  shows "fst (run_job env m st) = None"
  using assms process_message_frame [OF assms(1)]
  by (auto simp: run_job_def delete_sqs_message_def Let_def)

lemma run_job_failed:
  assumes "fst (process_message env m st) = False"
  shows "fst (run_job env m st) = None
     \<and> delete_requests (snd (run_job env m st)) = delete_requests st
     \<and> error_count (snd (run_job env m st)) = Suc (error_count st)
     \<and> processed_count (snd (run_job env m st)) = processed_count st
     \<and> (\<not> shutdown_requested env st \<longrightarrow>
           run_batch env (m # ms) st = run_batch env ms (snd (run_job env m st)))"
proof -
  obtain st1 where pm: "process_message env m st = (False, st1)"
    using assms by (cases "process_message env m st") auto
  from run_job_effect [OF pm] have e: "fst (run_job env m st) = None"
    "delete_requests (snd (run_job env m st)) = delete_requests st"
    "error_count (snd (run_job env m st)) = Suc (error_count st)"
    "processed_count (snd (run_job env m st)) = processed_count st"
    by simp_all
  from e(1) have "\<not> shutdown_requested env st \<Longrightarrow>
      run_batch env (m # ms) st = run_batch env ms (snd (run_job env m st))"
    by (cases "run_job env m st") simp
  with e show ?thesis by blast
qed

text \<open>
  C3. The loop requests the deletion of a job if and only if the job's fields were
  read, its drawing generated, and both \<open>upload_to_s3\<close> and then \<open>update_dynamodb\<close>
  returned without raising. When a step of \<open>process_message\<close> raises, no
  deletion is requested, the error counter grows by one, the processed counter stays,
  no exception leaves the loop body, and the loop goes on with the next job. A fault
  of \<^verbatim>\<open>put_object\<close> is such a case.
\<close>

theorem delete_iff_upload_and_update:
  "(delete_requests (snd (run_job env m st)) = delete_requests st @ [ReceiptHandle m])
     = (\<exists>job rid emo uid ts art url st1 st2.
           w_json_loads env (Body m) = Some job
         \<and> dict_get job ''record_id'' JNull = Inr rid
         \<and> dict_get job ''emotion'' (JStr ''neutral'') = Inr emo
         \<and> dict_get job ''user_id'' (JStr ''anonymous'') = Inr uid
         \<and> dict_get job ''timestamp'' JNull = Inr ts
         \<and> truthy rid
         \<and> generate env (tick st) emo rid = Inr art
         \<and> upload_to_s3 env (logs (Processing rid emo) st) art rid uid = (Inr url, st1)
         \<and> update_dynamodb env st1 uid ts rid url = (None, st2))
   \<and> (delete_requests (snd (run_job env m st)) = delete_requests st @ [ReceiptHandle m]
        \<or> delete_requests (snd (run_job env m st)) = delete_requests st)
   \<and> (\<forall>e st'. process_body env m st = (Inl e, st') \<longrightarrow>
          delete_requests (snd (run_job env m st)) = delete_requests st
        \<and> error_count (snd (run_job env m st)) = Suc (error_count st)
        \<and> processed_count (snd (run_job env m st)) = processed_count st
        \<and> fst (run_job env m st) = None
        \<and> (\<not> shutdown_requested env st \<longrightarrow>
              run_batch env (m # ms) st = run_batch env ms (snd (run_job env m st))))
   \<and> (\<forall>e. put_object_fault env (tick st) = Some e \<longrightarrow>
          delete_requests (snd (run_job env m st)) = delete_requests st
        \<and> error_count (snd (run_job env m st)) = Suc (error_count st))"
proof -
  let ?done = "\<exists>job rid emo uid ts art url st1 st2.
           w_json_loads env (Body m) = Some job
         \<and> dict_get job ''record_id'' JNull = Inr rid
         \<and> dict_get job ''emotion'' (JStr ''neutral'') = Inr emo
         \<and> dict_get job ''user_id'' (JStr ''anonymous'') = Inr uid
         \<and> dict_get job ''timestamp'' JNull = Inr ts
         \<and> truthy rid
         \<and> generate env (tick st) emo rid = Inr art
         \<and> upload_to_s3 env (logs (Processing rid emo) st) art rid uid = (Inr url, st1)
         \<and> update_dynamodb env st1 uid ts rid url = (None, st2)"
  obtain ok st1 where pm: "process_message env m st = (ok, st1)"
    by (cases "process_message env m st") blast
  note eff = run_job_effect [OF pm]
  have ok_iff: "ok \<longleftrightarrow> ?done"
  proof
    assume ok
    with pm have "fst (process_message env m st)" by simp
    from process_message_TrueD [OF this] show ?done by blast
  next
    assume ?done
    then obtain job rid emo uid ts art url s1 s2 where
      "w_json_loads env (Body m) = Some job"
      "dict_get job ''record_id'' JNull = Inr rid"
      "dict_get job ''emotion'' (JStr ''neutral'') = Inr emo"
      "dict_get job ''user_id'' (JStr ''anonymous'') = Inr uid"
      "dict_get job ''timestamp'' JNull = Inr ts"
      "truthy rid"
      "generate env (tick st) emo rid = Inr art"
      "upload_to_s3 env (logs (Processing rid emo) st) art rid uid = (Inr url, s1)"
      "update_dynamodb env s1 uid ts rid url = (None, s2)"
      by blast
    from process_message_TrueI [OF this] pm show ok by simp
  qed
  have c1: "(delete_requests (snd (run_job env m st)) = delete_requests st @ [ReceiptHandle m])
      = ?done"
    using eff ok_iff by auto
  have c2: "delete_requests (snd (run_job env m st)) = delete_requests st @ [ReceiptHandle m]
        \<or> delete_requests (snd (run_job env m st)) = delete_requests st"
    using eff by auto
  have c3: "delete_requests (snd (run_job env m st)) = delete_requests st
        \<and> error_count (snd (run_job env m st)) = Suc (error_count st)
        \<and> processed_count (snd (run_job env m st)) = processed_count st
        \<and> fst (run_job env m st) = None
        \<and> (\<not> shutdown_requested env st \<longrightarrow>
              run_batch env (m # ms) st = run_batch env ms (snd (run_job env m st)))"
    if "process_body env m st = (Inl e, st')" for e st'
  proof -
    from process_body_raises [OF that] have "fst (process_message env m st) = False" by simp
    from run_job_failed [OF this] show ?thesis by blast
  qed
  have c4: "delete_requests (snd (run_job env m st)) = delete_requests st
        \<and> error_count (snd (run_job env m st)) = Suc (error_count st)"
    if f: "put_object_fault env (tick st) = Some e" for e
  proof -
    have "\<not> ok"
    proof
      assume ok
      with ok_iff obtain rid emo uid art url s1 where
        u: "upload_to_s3 env (logs (Processing rid emo) st) art rid uid = (Inr url, s1)"
        by blast
      have "put_object_fault env (tick (logs (Processing rid emo) st)) = Some e"
        using f by simp
      from upload_fault [OF this, of art rid uid] u show False by auto
    qed
    with eff show ?thesis by simp
  qed
  from c1 c2 c3 c4 show ?thesis by blast
qed

subsection \<open>Shutdown\<close>

text \<open>No step of a job reads the shutdown flag.\<close>

lemma generate_signal [simp]:
  "generate (env\<lparr>signal_at := s\<rparr>) t e r = generate env t e r"
  by (simp add: generate_def EMOTION_ASCII_MAP_def fstr_def footer_def Let_def
      cong: json.case_cong option.case_cong sum.case_cong)

lemma upload_signal [simp]:
  "upload_to_s3 (env\<lparr>signal_at := s\<rparr>) st art rid uid = upload_to_s3 env st art rid uid"
  by (simp add: upload_to_s3_def object_key_def object_url_def fstr_def Let_def
      cong: json.case_cong option.case_cong sum.case_cong)

lemma update_signal [simp]:
  "update_dynamodb (env\<lparr>signal_at := s\<rparr>) st uid ts rid url = update_dynamodb env st uid ts rid url"
  by (simp add: update_dynamodb_def
      cong: list.case_cong option.case_cong sum.case_cong)

lemma process_body_signal [simp]:
  "process_body (env\<lparr>signal_at := s\<rparr>) m st = process_body env m st"
  by (simp add: process_body_def Let_def
      cong: option.case_cong sum.case_cong prod.case_cong if_cong)

lemma run_job_signal [simp]:
  "run_job (env\<lparr>signal_at := s\<rparr>) m st = run_job env m st"
  by (simp add: run_job_def process_message_def delete_sqs_message_def Let_def
      cong: option.case_cong sum.case_cong prod.case_cong bool.case_cong)

lemma process_message_signal [simp]:
  "process_message (env\<lparr>signal_at := s\<rparr>) m st = process_message env m st"
  by (simp add: process_message_def)

lemma run_job_tick: "tick (snd (run_job env m st)) = Suc (tick st)"
proof -
  obtain ok st1 where "process_message env m st = (ok, st1)"
    by (cases "process_message env m st") blast
  from run_job_effect [OF this] show ?thesis by simp
qed

text \<open>A batch cut short by the signal is the batch of the jobs before the cut, run
  without any signal, followed by the log line of the \<^verbatim>\<open>break\<close>.\<close>

lemma run_batch_cut:
  assumes "signal_at env = Some s"
    and "s - tick st < length msgs"
  shows "run_batch env msgs st =
     (case run_batch (env\<lparr>signal_at := None\<rparr>) (take (s - tick st) msgs) st of
        (Some e, st') \<Rightarrow> (Some e, st')
      | (None, st') \<Rightarrow> (None, logs ShutdownStop st'))"
  using assms
proof (induction msgs arbitrary: st)
  case Nil
  then show ?case by simp
next
  case (Cons m ms)
  show ?case
  proof (cases "s \<le> tick st")
    case True
    with Cons.prems show ?thesis by (simp add: shutdown_requested_def)
  next
    case False
    then obtain k where k: "s - tick st = Suc k" by (cases "s - tick st") auto
    obtain r st1 where rj: "run_job env m st = (r, st1)"
      by (cases "run_job env m st") blast
    have t1: "tick st1 = Suc (tick st)" using run_job_tick [of env m st] rj by simp
    have sd: "\<not> shutdown_requested env st"
      "\<not> shutdown_requested (env\<lparr>signal_at := None\<rparr>) st"
      using False Cons.prems(1) by (simp_all add: shutdown_requested_def)
    show ?thesis
    proof (cases r)
      case (Some e)
      with rj sd k show ?thesis by simp
    next
      case None
      have "s - tick st1 < length ms" using t1 k Cons.prems(2) by simp
      from Cons.IH [OF Cons.prems(1) this] have
        "run_batch env ms st1 =
           (case run_batch (env\<lparr>signal_at := None\<rparr>) (take (s - tick st1) ms) st1 of
              (Some e, st') \<Rightarrow> (Some e, st')
            | (None, st') \<Rightarrow> (None, logs ShutdownStop st'))" .
      moreover have "s - tick st1 = k" using t1 k by simp
      ultimately show ?thesis using rj sd k None by simp
    qed
  qed
qed

lemma completed_cut:
  assumes "signal_at env = Some s"
    and "s - tick st < length msgs"
  shows "completed env msgs st
     = completed (env\<lparr>signal_at := None\<rparr>) (take (s - tick st) msgs) st"
  using assms
proof (induction msgs arbitrary: st)
  case Nil
  then show ?case by simp
next
  case (Cons m ms)
  show ?case
  proof (cases "s \<le> tick st")
    case True
    with Cons.prems show ?thesis by (simp add: shutdown_requested_def)
  next
    case False
    then obtain k where k: "s - tick st = Suc k" by (cases "s - tick st") auto
    obtain r st1 where rj: "run_job env m st = (r, st1)"
      by (cases "run_job env m st") blast
    have t1: "tick st1 = Suc (tick st)" using run_job_tick [of env m st] rj by simp
    have sd: "\<not> shutdown_requested env st"
      "\<not> shutdown_requested (env\<lparr>signal_at := None\<rparr>) st"
      using False Cons.prems(1) by (simp_all add: shutdown_requested_def)
    show ?thesis
    proof (cases r)
      case (Some e)
      with rj sd k show ?thesis by simp
    next
      case None
      have "s - tick st1 < length ms" using t1 k Cons.prems(2) by simp
      from Cons.IH [OF Cons.prems(1) this] have
        "completed env ms st1
           = completed (env\<lparr>signal_at := None\<rparr>) (take (s - tick st1) ms) st1" .
      moreover have "s - tick st1 = k" using t1 k by simp
      ultimately show ?thesis using rj sd k None by simp
    qed
  qed
qed

lemma completed_subseq: "subseq (completed env msgs st) msgs"
proof (induction msgs arbitrary: st)
  case Nil
  then show ?case by simp
next
  case (Cons m ms)
  obtain r st1 where rj: "run_job env m st = (r, st1)"
    by (cases "run_job env m st") blast
  define rest where "rest = (case r of Some e \<Rightarrow> [] | None \<Rightarrow> completed env ms st1)"
  have r: "subseq rest ms"
    unfolding rest_def using Cons.IH by (cases r) simp_all
  have c: "completed env (m # ms) st =
      (if shutdown_requested env st then []
       else (if fst (process_message env m st) then [m] else []) @ rest)"
    using rj by (simp add: rest_def)
  show ?case
  proof (cases "shutdown_requested env st")
    case True
    with c show ?thesis by simp
  next
    case False
    show ?thesis
    proof (cases "fst (process_message env m st)")
      case True
      with c False have e: "completed env (m # ms) st = m # rest" by simp
      from r have "subseq (m # rest) (m # ms)" by (rule subseq_Cons2)
      then show ?thesis by (simp only: e)
    next
      case no: False
      with c False have e: "completed env (m # ms) st = rest" by simp
      from r have "subseq rest (m # ms)" by (rule list_emb_Cons)
      then show ?thesis by (simp only: e)
    qed
  qed
qed

text \<open>The deletions and the processed counter of a batch are those of its completed
  jobs.\<close>

lemma run_batch_deletes:
  "delete_requests (snd (run_batch env msgs st))
     = delete_requests st @ map ReceiptHandle (completed env msgs st)"
proof (induction msgs arbitrary: st)
  case Nil
  then show ?case by simp
next
  case (Cons m ms)
  obtain ok s1 where pm: "process_message env m st = (ok, s1)"
    by (cases "process_message env m st") blast
  note eff = run_job_effect [OF pm]
  obtain r st1 where rj: "run_job env m st = (r, st1)"
    by (cases "run_job env m st") blast
  show ?case
  proof (cases "shutdown_requested env st")
    case True
    then show ?thesis by simp
  next
    case False
    show ?thesis
    proof (cases r)
      case (Some e)
      with False rj pm eff show ?thesis by auto
    next
      case None
      with False rj pm eff Cons.IH [of st1] show ?thesis by auto
    qed
  qed
qed

lemma run_batch_processed:
  "processed_count (snd (run_batch env msgs st))
     \<le> processed_count st + length (completed env msgs st)
   \<and> (fst (run_batch env msgs st) = None \<longrightarrow>
        processed_count (snd (run_batch env msgs st))
          = processed_count st + length (completed env msgs st))"
proof (induction msgs arbitrary: st)
  case Nil
  then show ?case by simp
next
  case (Cons m ms)
  obtain ok s1 where pm: "process_message env m st = (ok, s1)"
    by (cases "process_message env m st") blast
  note eff = run_job_effect [OF pm]
  obtain r st1 where rj: "run_job env m st = (r, st1)"
    by (cases "run_job env m st") blast
  show ?case
  proof (cases "shutdown_requested env st")
    case True
    then show ?thesis by simp
  next
    case False
    show ?thesis
    proof (cases r)
      case (Some e)
      with False rj pm eff show ?thesis by auto
    next
      case None
      with False rj pm eff Cons.IH [of st1] show ?thesis by auto
    qed
  qed
qed

lemma run_batch_tick_mono: "tick st \<le> tick (snd (run_batch env msgs st))"
proof (induction msgs arbitrary: st)
  case Nil
  then show ?case by simp
next
  case (Cons m ms)
  obtain r st1 where rj: "run_job env m st = (r, st1)"
    by (cases "run_job env m st") blast
  have t1: "tick st1 = Suc (tick st)" using run_job_tick [of env m st] rj by simp
  show ?case
  proof (cases "shutdown_requested env st")
    case True
    then show ?thesis by simp
  next
    case False
    show ?thesis
    proof (cases r)
      case (Some e)
      with False rj t1 show ?thesis by simp
    next
      case None
      with False rj t1 Cons.IH [of st1] show ?thesis by simp
    qed
  qed
qed

lemma run_batch_cut_flag:
  assumes "signal_at env = Some s"
    and "s - tick st < length msgs"
    and "fst (run_batch env msgs st) = None"
  shows "shutdown_requested env (snd (run_batch env msgs st))"
  using assms
proof (induction msgs arbitrary: st)
  case Nil
  then show ?case by simp
next
  case (Cons m ms)
  show ?case
  proof (cases "shutdown_requested env st")
    case True
    then show ?thesis by simp
  next
    case False
    obtain r st1 where rj: "run_job env m st = (r, st1)"
      by (cases "run_job env m st") blast
    have t1: "tick st1 = Suc (tick st)" using run_job_tick [of env m st] rj by simp
    from False Cons.prems(1) have "tick st < s" by (simp add: shutdown_requested_def)
    with t1 Cons.prems(2) have b: "s - tick st1 < length ms" by simp
    from Cons.prems(3) False rj have r: "r = None" by (cases r) simp_all
    with Cons.prems(3) False rj have "fst (run_batch env ms st1) = None" by simp
    from Cons.IH [OF Cons.prems(1) b this] False rj r show ?thesis by simp
  qed
qed

lemma poll_cycle_tick: "tick st < tick (poll_cycle env st)"
proof -
  obtain r st1 where p: "poll_sqs_messages env st = (r, st1)"
    by (cases "poll_sqs_messages env st") blast
  then have t1: "tick st1 = tick st"
    by (auto simp: poll_sqs_messages_def split: sum.splits if_splits)
  show ?thesis
  proof (cases r)
    case (Inl e)
    with p t1 show ?thesis by (simp add: poll_cycle_def)
  next
    case (Inr msgs)
    obtain r2 st2 where rb: "run_batch env msgs (st1\<lparr>tick := Suc (tick st1)\<rparr>) = (r2, st2)"
      by (cases "run_batch env msgs (st1\<lparr>tick := Suc (tick st1)\<rparr>)") blast
    from run_batch_tick_mono [of "st1\<lparr>tick := Suc (tick st1)\<rparr>" env msgs] rb t1
    have "tick st < tick st2" by simp
    with p Inr rb show ?thesis by (cases r2) (simp_all add: poll_cycle_def)
  qed
qed

text \<open>Once a signal has been handled the loop ends.\<close>

lemma main_loop_terminates:
  assumes "signal_at env = Some s"
  shows "\<exists>fin. main_loop env st = Some fin"
proof (induction "s - tick st" arbitrary: st rule: less_induct)
  case less
  show ?case
  proof (cases "shutdown_requested env st")
    case True
    then show ?thesis by (subst main_loop.simps) simp
  next
    case False
    with assms have "tick st < s" by (simp add: shutdown_requested_def)
    with poll_cycle_tick [of st env] have "s - tick (poll_cycle env st) < s - tick st"
      by simp
    from less [OF this] obtain fin where "main_loop env (poll_cycle env st) = Some fin"
      by blast
    with False show ?thesis by (subst main_loop.simps) simp
  qed
qed

text \<open>
  C7. Let the shutdown flag be set by tick \<open>s\<close>, and let it be observed inside a
  batch, with jobs of the batch still unprocessed (\<open>s - tick st\<close> is smaller than the
  length of the batch). Then the loop over the batch does what it would do, without
  any signal, on the jobs before the cut alone: the jobs after the cut are neither
  processed nor deleted, and a job that has begun is run to its end, since no step
  of a job reads the flag. The deletions requested are those of the completed jobs,
  which are among the jobs before the cut, and the processed counter grows by at
  most their number, by exactly it when no exception left the loop body. In that
  case the flag is set in the state after the batch, so that the \<^verbatim>\<open>while\<close> loop ends
  at its next check and returns that state with the final log line. With a signal
  the main loop always ends.
\<close>

theorem shutdown_mid_batch:
  assumes "signal_at env = Some s"
    and "s - tick st < length msgs"
  shows "run_batch env msgs st =
       (case run_batch (env\<lparr>signal_at := None\<rparr>) (take (s - tick st) msgs) st of
          (Some e, st') \<Rightarrow> (Some e, st')
        | (None, st') \<Rightarrow> (None, logs ShutdownStop st'))
   \<and> run_job (env\<lparr>signal_at := None\<rparr>) m st' = run_job env m st'
   \<and> delete_requests (snd (run_batch env msgs st))
        = delete_requests st @ map ReceiptHandle (completed env msgs st)
   \<and> subseq (completed env msgs st) (take (s - tick st) msgs)
   \<and> processed_count (snd (run_batch env msgs st))
        \<le> processed_count st + length (completed env msgs st)
   \<and> (fst (run_batch env msgs st) = None \<longrightarrow>
         processed_count (snd (run_batch env msgs st))
           = processed_count st + length (completed env msgs st)
       \<and> shutdown_requested env (snd (run_batch env msgs st)))
   \<and> (\<not> shutdown_requested env st0
       \<and> poll_sqs_messages env st0 = (Inr msgs, st1)
       \<and> st = st1\<lparr>tick := Suc (tick st1)\<rparr>
       \<and> fst (run_batch env msgs st) = None \<longrightarrow>
         main_loop env st0
           = Some (logs (ShuttingDown (processed_count (snd (run_batch env msgs st)))
                                      (error_count (snd (run_batch env msgs st))))
                        (snd (run_batch env msgs st))))
   \<and> (\<exists>fin. main_loop env st0 = Some fin)"
proof -
  note c1 = run_batch_cut [OF assms]
  have c2: "run_job (env\<lparr>signal_at := None\<rparr>) m st' = run_job env m st'" by simp
  note c3 = run_batch_deletes [of env msgs st]
  have c4: "subseq (completed env msgs st) (take (s - tick st) msgs)"
    using completed_subseq [of "env\<lparr>signal_at := None\<rparr>" "take (s - tick st) msgs" st]
    by (simp only: completed_cut [OF assms])
  note c5 = run_batch_processed [of env msgs st]
  have c6: "shutdown_requested env (snd (run_batch env msgs st))"
    if "fst (run_batch env msgs st) = None"
    using run_batch_cut_flag [OF assms that] .
  have c7: "main_loop env st0
           = Some (logs (ShuttingDown (processed_count (snd (run_batch env msgs st)))
                                      (error_count (snd (run_batch env msgs st))))
                        (snd (run_batch env msgs st)))"
    if h: "\<not> shutdown_requested env st0" "poll_sqs_messages env st0 = (Inr msgs, st1)"
      "st = st1\<lparr>tick := Suc (tick st1)\<rparr>" "fst (run_batch env msgs st) = None"
  proof -
    obtain st2 where rb: "run_batch env msgs st = (None, st2)"
      using h(4) by (cases "run_batch env msgs st") auto
    with h(2,3) have pc: "poll_cycle env st0 = st2" by (simp add: poll_cycle_def)
    from c6 [OF h(4)] rb have f: "shutdown_requested env st2" by simp
    have "main_loop env st0 = main_loop env st2"
      using h(1) pc by (subst main_loop.simps) simp
    also have "\<dots> = Some (logs (ShuttingDown (processed_count st2) (error_count st2)) st2)"
      using f by (subst main_loop.simps) simp
    finally show ?thesis using rb by simp
  qed
  note c8 = main_loop_terminates [OF assms(1), of st0]
  from c1 c2 c3 c4 c5 c6 c7 c8 show ?thesis by blast
qed

subsection \<open>Runs of the worker's small environment\<close>

lemma demo_job_done:
  assumes "w_table st = [stored_item]"
  shows "fst (process_message (wenv_with b None None s) msg_ok st)"
proof -
  let ?env = "wenv_with b None None s"
  let ?st0 = "logs (Processing (JStr ''uuid-00'') (JStr ''neutral'')) st"
  let ?art = "''<neutral> ID: uuid-00 Generated: 2026-01-02 03:04:05 UTC ''"
  have "put_object_fault ?env (tick ?st0) = None" by (simp add: wwith_fields)
  from upload_ok [OF this, of ?art "JStr ''uuid-00''" "JStr ''u1''"]
  obtain url st1 where up: "upload_to_s3 ?env ?st0 ?art (JStr ''uuid-00'') (JStr ''u1'')
      = (Inr url, st1)"
    and t1: "w_table st1 = w_table ?st0"
    by blast
  obtain r2 st2 where ud: "update_dynamodb ?env st1 (JStr ''u1'')
      (JStr ''2026-01-01T00:00:00.000200+00:00'') (JStr ''uuid-00'') url = (r2, st2)"
    by (cases "update_dynamodb ?env st1 (JStr ''u1'')
      (JStr ''2026-01-01T00:00:00.000200+00:00'') (JStr ''uuid-00'') url") blast
  have n: "r2 = None"
    using ud t1 assms
    by (auto simp: update_dynamodb_def query_items_def stored_item_def
        wwith_fields split: option.splits list.splits if_splits)
  have t: "truthy (JStr ''uuid-00'')" by simp
  have "process_message ?env msg_ok st = (True, logs (ProcessedOk (JStr ''uuid-00'')) st2)"
    by (rule process_message_TrueI [OF demo_job_reads(1) demo_job_reads(4-7) t
          demo_generate(1) up ud [unfolded n]])
  then show ?thesis by simp
qed

lemma demo_job_upload_fails:
  "\<exists>st'. process_body (wenv_with b (Some e) q s) msg_ok st = (Inl e, st')"
proof -
  let ?env = "wenv_with b (Some e) q s"
  let ?st0 = "logs (Processing (JStr ''uuid-00'') (JStr ''neutral'')) st"
  have t: "truthy (JStr ''uuid-00'')" by simp
  have "put_object_fault ?env (tick ?st0) = Some e" by (simp add: wwith_fields)
  from upload_fault [OF this] obtain st' where
    "upload_to_s3 ?env ?st0 ''<neutral> ID: uuid-00 Generated: 2026-01-02 03:04:05 UTC ''
       (JStr ''uuid-00'') (JStr ''u1'') = (Inl e, st')" by blast
  with process_body_read [OF demo_job_reads(1) demo_job_reads(4-7) t, of b "Some e" q s st]
    demo_generate(1) [of b "Some e" q s "tick st"]
  show ?thesis by simp
qed

theorem delete_iff_upload_and_update_witness:
  "delete_requests (snd (run_job demo_wenv msg_ok wstate0)) = [''rh-ok'']
   \<and> (\<exists>st'. process_body wenv_upload_fails msg_ok wstate0 = (Inl ClientError, st'))
   \<and> \<not> shutdown_requested wenv_upload_fails wstate0
   \<and> put_object_fault wenv_upload_fails (tick wstate0) = Some ClientError
   \<and> delete_requests (snd (run_job wenv_upload_fails msg_ok wstate0)) = []
   \<and> error_count (snd (run_job wenv_upload_fails msg_ok wstate0)) = 1
   \<and> processed_count (snd (run_job wenv_upload_fails msg_ok wstate0)) = 0
   \<and> run_batch wenv_upload_fails [msg_ok, msg_noid] wstate0
        = run_batch wenv_upload_fails [msg_noid] (snd (run_job wenv_upload_fails msg_ok wstate0))"
proof -
  have "fst (process_message demo_wenv msg_ok wstate0)"
    unfolding demo_wenv_def by (rule demo_job_done) (simp add: wstate0_def)
  from process_message_TrueD [OF this]
  have "\<exists>job rid emo uid ts art url st1 st2.
           w_json_loads demo_wenv (Body msg_ok) = Some job
         \<and> dict_get job ''record_id'' JNull = Inr rid
         \<and> dict_get job ''emotion'' (JStr ''neutral'') = Inr emo
         \<and> dict_get job ''user_id'' (JStr ''anonymous'') = Inr uid
         \<and> dict_get job ''timestamp'' JNull = Inr ts
         \<and> truthy rid
         \<and> generate demo_wenv (tick wstate0) emo rid = Inr art
         \<and> upload_to_s3 demo_wenv (logs (Processing rid emo) wstate0) art rid uid = (Inr url, st1)
         \<and> update_dynamodb demo_wenv st1 uid ts rid url = (None, st2)"
    by blast
  with delete_iff_upload_and_update [of demo_wenv msg_ok wstate0 "[]"]
  have a: "delete_requests (snd (run_job demo_wenv msg_ok wstate0))
      = delete_requests wstate0 @ [ReceiptHandle msg_ok]"
    by blast
  obtain st' where b: "process_body wenv_upload_fails msg_ok wstate0 = (Inl ClientError, st')"
    unfolding wenv_upload_fails_def using demo_job_upload_fails by blast
  have s: "\<not> shutdown_requested wenv_upload_fails wstate0"
    by (simp add: shutdown_requested_def wenv_upload_fails_def wwith_fields)
  have f: "put_object_fault wenv_upload_fails (tick wstate0) = Some ClientError"
    by (simp add: wenv_upload_fails_def wwith_fields)
  from delete_iff_upload_and_update [of wenv_upload_fails msg_ok wstate0 "[msg_noid]"] b s
  have c: "delete_requests (snd (run_job wenv_upload_fails msg_ok wstate0)) = delete_requests wstate0
     \<and> error_count (snd (run_job wenv_upload_fails msg_ok wstate0)) = Suc (error_count wstate0)
     \<and> processed_count (snd (run_job wenv_upload_fails msg_ok wstate0)) = processed_count wstate0
     \<and> run_batch wenv_upload_fails [msg_ok, msg_noid] wstate0
        = run_batch wenv_upload_fails [msg_noid] (snd (run_job wenv_upload_fails msg_ok wstate0))"
    by blast
  have w: "delete_requests wstate0 = []" "error_count wstate0 = 0" "processed_count wstate0 = 0"
    "ReceiptHandle msg_ok = ''rh-ok''"
    by (simp_all add: wstate0_def msg_ok_def)
  from a b s f c show ?thesis
    by (simp only: w) auto
qed

theorem shutdown_mid_batch_witness:
  "signal_at wenv_signal = Some 2
   \<and> 2 - tick wstate_polled < length [msg_ok, msg_lost, msg_noid]
   \<and> completed wenv_signal [msg_ok, msg_lost, msg_noid] wstate_polled = [msg_ok]
   \<and> delete_requests (snd (run_batch wenv_signal [msg_ok, msg_lost, msg_noid] wstate_polled))
        = [''rh-ok'']
   \<and> processed_count (snd (run_batch wenv_signal [msg_ok, msg_lost, msg_noid] wstate_polled)) = 1
   \<and> (\<exists>fin. main_loop wenv_signal wstate0 = Some fin
         \<and> delete_requests fin = [''rh-ok''] \<and> processed_count fin = 1)"
proof -
  let ?msgs = "[msg_ok, msg_lost, msg_noid]"
  have sg: "signal_at wenv_signal = Some 2"
    by (simp add: wenv_signal_def wwith_fields)
  have tk: "tick wstate_polled = Suc 0" "w_table wstate_polled = [stored_item]"
    "delete_requests wstate_polled = []" "processed_count wstate_polled = 0"
    by (simp_all add: wstate_polled_def wstate0_def)
  have bd: "2 - tick wstate_polled < length ?msgs" by (simp add: tk)
  have ok: "fst (process_message wenv_signal msg_ok wstate_polled)"
    unfolding wenv_signal_def by (rule demo_job_done) (simp add: tk)
  then obtain s1 where pm: "process_message wenv_signal msg_ok wstate_polled = (True, s1)"
    by (cases "process_message wenv_signal msg_ok wstate_polled") auto
  have "delete_fault wenv_signal (tick wstate_polled) = None"
    by (simp add: wenv_signal_def wwith_fields)
  with run_job_ok [OF pm] have "fst (run_job wenv_signal msg_ok wstate_polled) = None"
    by blast
  then obtain st' where rj: "run_job wenv_signal msg_ok wstate_polled = (None, st')"
    by (cases "run_job wenv_signal msg_ok wstate_polled") auto
  have t': "tick st' = 2"
    using run_job_tick [of wenv_signal msg_ok wstate_polled] rj tk by simp
  have n0: "\<not> shutdown_requested wenv_signal wstate_polled"
    and n1: "shutdown_requested wenv_signal st'"
    using sg tk t' by (simp_all add: shutdown_requested_def)
  have cp: "completed wenv_signal ?msgs wstate_polled = [msg_ok]"
    using n0 n1 ok rj by simp
  have rb: "run_batch wenv_signal ?msgs wstate_polled = (None, logs ShutdownStop st')"
    using n0 n1 rj by simp
  have po: "poll_sqs_messages wenv_signal wstate0 = (Inr ?msgs, logs (Received 3) wstate0)"
    by (simp add: poll_sqs_messages_def wenv_signal_def wwith_fields wstate0_def)
  have st: "wstate_polled = (logs (Received 3) wstate0)\<lparr>tick := Suc (tick (logs (Received 3) wstate0))\<rparr>"
    by (simp add: wstate_polled_def wstate0_def)
  have s0: "\<not> shutdown_requested wenv_signal wstate0"
    using sg by (simp add: shutdown_requested_def wstate0_def)
  note th = shutdown_mid_batch [OF sg bd, of msg_ok wstate0 wstate0 "logs (Received 3) wstate0"]
  have fr: "fst (run_batch wenv_signal ?msgs wstate_polled) = None"
    by (simp only: rb fst_conv)
  have rh: "map ReceiptHandle [msg_ok] = [''rh-ok'']" by (simp add: msg_ok_def)
  from th have "delete_requests (snd (run_batch wenv_signal ?msgs wstate_polled))
      = delete_requests wstate_polled @ map ReceiptHandle (completed wenv_signal ?msgs wstate_polled)"
    by (rule conjunct2 [THEN conjunct2, THEN conjunct1])
  then have d: "delete_requests (snd (run_batch wenv_signal ?msgs wstate_polled))
      = [''rh-ok'']"
    by (simp only: cp tk rh append_Nil)
  from th have "fst (run_batch wenv_signal ?msgs wstate_polled) = None \<longrightarrow>
         processed_count (snd (run_batch wenv_signal ?msgs wstate_polled))
           = processed_count wstate_polled + length (completed wenv_signal ?msgs wstate_polled)
       \<and> shutdown_requested wenv_signal (snd (run_batch wenv_signal ?msgs wstate_polled))"
    by (rule conjunct2 [THEN conjunct2, THEN conjunct2, THEN conjunct2, THEN conjunct2,
          THEN conjunct1])
  with fr have "processed_count (snd (run_batch wenv_signal ?msgs wstate_polled))
           = processed_count wstate_polled + length (completed wenv_signal ?msgs wstate_polled)"
    by blast
  then have p: "processed_count (snd (run_batch wenv_signal ?msgs wstate_polled)) = 1"
    by (simp only: cp tk) simp
  from th have "\<not> shutdown_requested wenv_signal wstate0
       \<and> poll_sqs_messages wenv_signal wstate0 = (Inr ?msgs, logs (Received 3) wstate0)
       \<and> wstate_polled = (logs (Received 3) wstate0)\<lparr>tick := Suc (tick (logs (Received 3) wstate0))\<rparr>
       \<and> fst (run_batch wenv_signal ?msgs wstate_polled) = None \<longrightarrow>
         main_loop wenv_signal wstate0
           = Some (logs (ShuttingDown (processed_count (snd (run_batch wenv_signal ?msgs wstate_polled)))
                                      (error_count (snd (run_batch wenv_signal ?msgs wstate_polled))))
                        (snd (run_batch wenv_signal ?msgs wstate_polled)))"
    by (rule conjunct2 [THEN conjunct2, THEN conjunct2, THEN conjunct2, THEN conjunct2,
          THEN conjunct2, THEN conjunct1])
  with s0 po st fr have "main_loop wenv_signal wstate0
      = Some (logs (ShuttingDown (processed_count (snd (run_batch wenv_signal ?msgs wstate_polled)))
                                 (error_count (snd (run_batch wenv_signal ?msgs wstate_polled))))
                   (snd (run_batch wenv_signal ?msgs wstate_polled)))"
    by blast
  with d p have "\<exists>fin. main_loop wenv_signal wstate0 = Some fin
         \<and> delete_requests fin = [''rh-ok''] \<and> processed_count fin = 1"
    by simp
  with sg bd cp d p show ?thesis by blast
qed

end
